theory Spec2Isabelle
  imports Complex_Main "HOL-Library.Sublist"
begin

section \<open>Strings and Python values\<close>

text \<open>
  Python's \<^verbatim>\<open>sep.join(parts)\<close>.
\<close>

fun str_join :: "string \<Rightarrow> string list \<Rightarrow> string" where
  "str_join sep [] = []"
| "str_join sep [x] = x"
| "str_join sep (x # y # ys) = x @ sep @ str_join sep (y # ys)"

text \<open>
  Truthiness of an \<^verbatim>\<open>Optional[str]\<close>: \<^verbatim>\<open>None\<close> and the empty string are false.
\<close>

fun truthy :: "string option \<Rightarrow> bool" where
  "truthy None = False"
| "truthy (Some s) = (s \<noteq> [])"

text \<open>
  \<^verbatim>\<open>source.startswith(("http://", "https://", "s3://"))\<close>.
\<close>

definition startswith_remote :: "string \<Rightarrow> bool" where
  "startswith_remote source \<longleftrightarrow>
     prefix ''http://'' source \<or> prefix ''https://'' source \<or> prefix ''s3://'' source"

text \<open>
  The exceptions raised by the two modules. \<open>EngineError\<close> is what a call of
  \<^verbatim>\<open>con.execute\<close> raises, \<open>HelperError\<close> what a helper of
  \<^verbatim>\<open>geoparquet_io.core.common\<close> raises; both carry the diagnostic of their origin.
\<close>

datatype error =
    UsageError string
  | ClickException string
  | TypeError string
  | NotImplementedError string
  | KeyError string
  | IndexError
  | EngineError string
  | HelperError string

section \<open>Admin datasets (admin\_datasets.py)\<close>

text \<open>
  An instance of a subclass of \<^verbatim>\<open>AdminDataset\<close>: the two attributes set by
  \<^verbatim>\<open>AdminDataset.__init__\<close> (\<^verbatim>\<open>self.source_path\<close>, \<^verbatim>\<open>self.verbose\<close>)
  and what each overridable method of the class returns.
  \<open>get_default_source\<close> may raise (the custom dataset does), \<open>configure_s3\<close> is
  the list of statements the method executes on the connection it is given.
\<close>

record dataset =
  self_source_path :: "string option"
  self_verbose :: bool
  get_dataset_name :: string
  get_default_source :: "error + string"
  get_available_levels :: "string list"
  get_level_column_mapping :: "string \<rightharpoonup> string"
  get_geometry_column :: string
  get_bbox_column :: "string option"
  get_read_parquet_options :: "(string \<times> int) list"
  get_subtype_filter :: "string list \<Rightarrow> string option"
  configure_s3 :: "string list"

subsection \<open>Methods of the base class\<close>

definition get_source :: "dataset \<Rightarrow> error + string" where
  "get_source d =
     (case self_source_path d of
        None \<Rightarrow> get_default_source d
      | Some s \<Rightarrow> if s \<noteq> [] then Inr s else get_default_source d)"

definition is_remote :: "dataset \<Rightarrow> error + bool" where
  "is_remote d =
     (case get_source d of
        Inl e \<Rightarrow> Inl e
      | Inr source \<Rightarrow> Inr (startswith_remote source))"

definition invalid_levels :: "dataset \<Rightarrow> string list \<Rightarrow> string list" where
  "invalid_levels d levels = filter (\<lambda>level. level \<notin> set (get_available_levels d)) levels"

definition invalid_levels_message :: "dataset \<Rightarrow> string list \<Rightarrow> string" where
  "invalid_levels_message d invalid =
     ''Invalid levels for '' @ get_dataset_name d @ '': '' @ str_join '', '' invalid @ ''. ''
     @ ''Available levels: '' @ str_join '', '' (get_available_levels d)"

definition validate_levels :: "dataset \<Rightarrow> string list \<Rightarrow> error + unit" where
  "validate_levels d levels =
     (let invalid = invalid_levels d levels
      in if invalid \<noteq> [] then Inl (UsageError (invalid_levels_message d invalid))
         else Inr ())"

text \<open>
  \<^verbatim>\<open>[mapping[level] for level in levels]\<close>: the first level that is not a key
  raises \<^verbatim>\<open>KeyError\<close>.
\<close>

fun lookup_levels :: "(string \<rightharpoonup> string) \<Rightarrow> string list \<Rightarrow> error + string list" where
  "lookup_levels mapping [] = Inr []"
| "lookup_levels mapping (level # levels) =
     (case mapping level of
        None \<Rightarrow> Inl (KeyError level)
      | Some col \<Rightarrow>
          (case lookup_levels mapping levels of
             Inl e \<Rightarrow> Inl e
           | Inr cols \<Rightarrow> Inr (col # cols)))"

definition get_partition_columns :: "dataset \<Rightarrow> string list \<Rightarrow> error + string list" where
  "get_partition_columns d levels =
     (case validate_levels d levels of
        Inl e \<Rightarrow> Inl e
      | Inr _ \<Rightarrow> lookup_levels (get_level_column_mapping d) levels)"

subsection \<open>The four dataset classes\<close>

definition CurrentAdminDataset :: "string option \<Rightarrow> bool \<Rightarrow> dataset" where
  "CurrentAdminDataset sp v =
     \<lparr> self_source_path = sp, self_verbose = v,
       get_dataset_name = ''Current (source.coop countries)'',
       get_default_source =
         Inr ''https://data.source.coop/cholmes/admin-boundaries/countries.parquet'',
       get_available_levels = [''country''],
       get_level_column_mapping = [''country'' \<mapsto> ''country''],
       get_geometry_column = ''geometry'',
       get_bbox_column = Some ''bbox'',
       get_read_parquet_options = [],
       get_subtype_filter = (\<lambda>levels. None),
       configure_s3 =
         [''SET s3_endpoint='data.source.coop';'', ''SET s3_url_style='path';'',
          ''SET s3_use_ssl=true;''] \<rparr>"

definition GAULAdminDataset :: "string option \<Rightarrow> bool \<Rightarrow> dataset" where
  "GAULAdminDataset sp v =
     \<lparr> self_source_path = sp, self_verbose = v,
       get_dataset_name = ''GAUL L2 Admin Boundaries'',
       get_default_source = Inr ''s3://nlebovits/gaul-l2-admin/by_country/*.parquet'',
       get_available_levels = [''continent'', ''country'', ''department''],
       get_level_column_mapping =
         [''continent'' \<mapsto> ''continent'', ''country'' \<mapsto> ''gaul0_name'',
          ''department'' \<mapsto> ''gaul2_name''],
       get_geometry_column = ''geometry'',
       get_bbox_column = Some ''geometry_bbox'',
       get_read_parquet_options = [],
       get_subtype_filter = (\<lambda>levels. None),
       configure_s3 =
         [''SET s3_endpoint='data.source.coop';'', ''SET s3_url_style='path';'',
          ''SET s3_use_ssl=true;''] \<rparr>"

text \<open>
  \<^verbatim>\<open>OvertureAdminDataset.get_subtype_filter\<close>: the levels that are keys of
  \<^verbatim>\<open>level_to_subtype\<close>, each quoted, in a \<^verbatim>\<open>subtype IN (...)\<close> clause.
\<close>

definition level_to_subtype :: "string \<rightharpoonup> string" where
  "level_to_subtype = [''country'' \<mapsto> ''country'', ''region'' \<mapsto> ''region'']"

definition quoted :: "string \<Rightarrow> string" where
  "quoted s = [CHR 0x27] @ s @ [CHR 0x27]"

definition overture_subtype_filter :: "string list \<Rightarrow> string option" where
  "overture_subtype_filter levels =
     (let subtypes = List.map_filter level_to_subtype levels
      in if subtypes \<noteq> []
         then Some (''subtype IN ('' @ str_join '', '' (map quoted subtypes) @ '')'')
         else None)"

definition OvertureAdminDataset :: "string option \<Rightarrow> bool \<Rightarrow> dataset" where
  "OvertureAdminDataset sp v =
     \<lparr> self_source_path = sp, self_verbose = v,
       get_dataset_name = ''Overture Maps Divisions'',
       get_default_source =
         Inr ''s3://overturemaps-us-west-2/release/2025-10-22.0/theme=divisions/type=division_area/*'',
       get_available_levels = [''country'', ''region''],
       get_level_column_mapping =
         [''country'' \<mapsto> ''country'', ''region'' \<mapsto> ''names['primary']''],
       get_geometry_column = ''geometry'',
       get_bbox_column = Some ''bbox'',
       get_read_parquet_options = [(''hive_partitioning'', 1)],
       get_subtype_filter = overture_subtype_filter,
       configure_s3 = [''SET s3_region='us-west-2';''] \<rparr>"


subsection \<open>The factory and its registry\<close>

text \<open>
  A class object as \<^verbatim>\<open>AdminDatasetFactory\<close> sees it: its printed form, the answer of
  \<^verbatim>\<open>issubclass(dataset_class, AdminDataset)\<close>, and the call
  \<^verbatim>\<open>dataset_class(source_path=..., verbose=...)\<close>, which may raise.
\<close>

record dataset_class =
  cls_repr :: string
  subclass_of_AdminDataset :: bool
  construct :: "string option \<Rightarrow> bool \<Rightarrow> error + dataset"

definition CurrentAdminDataset_class :: dataset_class where
  "CurrentAdminDataset_class =
     \<lparr> cls_repr = ''<class 'geoparquet_io.core.admin_datasets.CurrentAdminDataset'>'',
       subclass_of_AdminDataset = True,
       construct = (\<lambda>sp v. Inr (CurrentAdminDataset sp v)) \<rparr>"

definition GAULAdminDataset_class :: dataset_class where
  "GAULAdminDataset_class =
     \<lparr> cls_repr = ''<class 'geoparquet_io.core.admin_datasets.GAULAdminDataset'>'',
       subclass_of_AdminDataset = True,
       construct = (\<lambda>sp v. Inr (GAULAdminDataset sp v)) \<rparr>"

definition OvertureAdminDataset_class :: dataset_class where
  "OvertureAdminDataset_class =
     \<lparr> cls_repr = ''<class 'geoparquet_io.core.admin_datasets.OvertureAdminDataset'>'',
       subclass_of_AdminDataset = True,
       construct = (\<lambda>sp v. Inr (OvertureAdminDataset sp v)) \<rparr>"

text \<open>
  The base class itself: \<^verbatim>\<open>issubclass(AdminDataset, AdminDataset)\<close> is true, and
  calling an \<^verbatim>\<open>ABC\<close> that still has abstract methods raises \<^verbatim>\<open>TypeError\<close>
  (the wording of the message is the interpreter's).
\<close>

definition AdminDataset_class :: dataset_class where
  "AdminDataset_class =
     \<lparr> cls_repr = ''<class 'geoparquet_io.core.admin_datasets.AdminDataset'>'',
       subclass_of_AdminDataset = True,
       construct = (\<lambda>sp v. Inl (TypeError ''Can't instantiate abstract class AdminDataset'')) \<rparr>"

text \<open>
  \<^verbatim>\<open>_datasets\<close> is a dict whose key order shows in the message of \<^verbatim>\<open>create\<close>:
  an association list, with Python's assignment \<^verbatim>\<open>d[k] = v\<close> (an existing key keeps
  its place, a new key goes last).
\<close>

type_synonym registry = "(string \<times> dataset_class) list"

fun dict_set :: "'k \<Rightarrow> 'v \<Rightarrow> ('k \<times> 'v) list \<Rightarrow> ('k \<times> 'v) list" where
  "dict_set k v [] = [(k, v)]"
| "dict_set k v ((k', v') # kvs) =
     (if k' = k then (k, v) # kvs else (k', v') # dict_set k v kvs)"

definition builtin_datasets :: registry where
  "builtin_datasets =
     [(''current'', CurrentAdminDataset_class),
      (''gaul'', GAULAdminDataset_class),
      (''overture'', OvertureAdminDataset_class)]"

definition get_available_datasets :: "registry \<Rightarrow> string list" where
  "get_available_datasets datasets = map fst datasets"

definition create :: "registry \<Rightarrow> string \<Rightarrow> string option \<Rightarrow> bool \<Rightarrow> error + dataset" where
  "create datasets dataset_name sp v =
     (case map_of datasets dataset_name of
        None \<Rightarrow>
          Inl (UsageError (''Unknown admin dataset: '' @ dataset_name @ ''. ''
                 @ ''Available: '' @ str_join '', '' (get_available_datasets datasets)))
      | Some dataset_cls \<Rightarrow> construct dataset_cls sp v)"

text \<open>
  \<^verbatim>\<open>register_dataset\<close> returns the registry it leaves behind together with the
  exception it raised, if any.
\<close>

definition register_dataset ::
  "string \<Rightarrow> dataset_class \<Rightarrow> registry \<Rightarrow> registry \<times> error option" where
  "register_dataset name dataset_cls datasets =
     (if \<not> subclass_of_AdminDataset dataset_cls
      then (datasets, Some (TypeError (cls_repr dataset_cls @ '' must be a subclass of AdminDataset'')))
      else (dict_set name dataset_cls datasets, None))"

section \<open>Effects of a join request\<close>

text \<open>
  What a request does besides computing: console output, operations on the DuckDB
  connection, and the two helper calls that write files.
\<close>

datatype event =
    Echo string
  | EchoStyled string string bool
  | Connect
  | Execute string
  | Close
  | AddBbox string string
  | WriteParquet string string

text \<open>
  The result of \<^verbatim>\<open>check_bbox_structure\<close>, with the four keys the module reads.
\<close>

record bbox_info =
  bbox_column_name :: "string option"
  status :: string
  has_bbox_column :: bool
  message :: string

text \<open>
  The keyword arguments of \<^verbatim>\<open>write_parquet_with_metadata\<close>.
\<close>

record 'md write_args =
  w_query :: string
  w_output_parquet :: string
  w_original_metadata :: "'md option"
  w_compression :: string
  w_compression_level :: "int option"
  w_row_group_size_mb :: "real option"
  w_row_group_rows :: "int option"
  w_verbose :: bool

text \<open>
  The collaborators of the module, as parameters. \<open>'fs\<close> is the state of the data files
  (input, output, admin source), \<open>'md\<close> the metadata of a Parquet file. A helper that
  reads answers with its value or with the diagnostic of the exception it raises; a
  helper that writes returns the new file state, and the diagnostic if it raised.
  \<open>engine fs stmt\<close> is the row that \<^verbatim>\<open>con.execute(stmt).fetchone()\<close> gives,
  or the diagnostic of the exception \<^verbatim>\<open>con.execute(stmt)\<close> raises.
\<close>

record ('fs, 'md) env =
  path_exists :: "'fs \<Rightarrow> string \<Rightarrow> bool"
  safe_file_url :: "'fs \<Rightarrow> string \<Rightarrow> bool \<Rightarrow> string + string"
  find_primary_geometry_column :: "'fs \<Rightarrow> string \<Rightarrow> bool \<Rightarrow> string + string"
  check_bbox_structure :: "'fs \<Rightarrow> string \<Rightarrow> bool \<Rightarrow> string + bbox_info"
  get_parquet_metadata :: "'fs \<Rightarrow> string \<Rightarrow> bool \<Rightarrow> string + 'md"
  add_bbox :: "string \<Rightarrow> string \<Rightarrow> bool \<Rightarrow> 'fs \<Rightarrow> 'fs \<times> string option"
  write_parquet_with_metadata :: "'md write_args \<Rightarrow> 'fs \<Rightarrow> 'fs \<times> string option"
  engine :: "'fs \<Rightarrow> string \<Rightarrow> string + int list"

text \<open>
  A computation starts from a file state and ends with a file state, the events it
  produced, and a value or the exception that stopped it.
\<close>

record ('fs, 'a) outcome =
  fs_after :: 'fs
  trace :: "event list"
  result :: "error + 'a"

type_synonym ('fs, 'a) prog = "'fs \<Rightarrow> ('fs, 'a) outcome"

definition ret :: "'a \<Rightarrow> ('fs, 'a) prog" where
  "ret x = (\<lambda>fs. \<lparr> fs_after = fs, trace = [], result = Inr x \<rparr>)"

definition raise :: "error \<Rightarrow> ('fs, 'a) prog" where
  "raise e = (\<lambda>fs. \<lparr> fs_after = fs, trace = [], result = Inl e \<rparr>)"

definition bnd :: "('fs, 'a) prog \<Rightarrow> ('a \<Rightarrow> ('fs, 'b) prog) \<Rightarrow> ('fs, 'b) prog" where
  "bnd m f = (\<lambda>fs.
     let o1 = m fs
     in case result o1 of
          Inl e \<Rightarrow> \<lparr> fs_after = fs_after o1, trace = trace o1, result = Inl e \<rparr>
        | Inr x \<Rightarrow>
            let o2 = f x (fs_after o1)
            in \<lparr> fs_after = fs_after o2, trace = trace o1 @ trace o2, result = result o2 \<rparr>)"

definition lift :: "error + 'a \<Rightarrow> ('fs, 'a) prog" where
  "lift r = (case r of Inl e \<Rightarrow> raise e | Inr x \<Rightarrow> ret x)"

definition emit :: "event \<Rightarrow> ('fs, unit) prog" where
  "emit ev = (\<lambda>fs. \<lparr> fs_after = fs, trace = [ev], result = Inr () \<rparr>)"

definition echo :: "string \<Rightarrow> ('fs, unit) prog" where
  "echo text = emit (Echo text)"

definition echo_styled :: "string \<Rightarrow> string \<Rightarrow> bool \<Rightarrow> ('fs, unit) prog" where
  "echo_styled text fg bold = emit (EchoStyled text fg bold)"

definition whenever :: "bool \<Rightarrow> ('fs, unit) prog \<Rightarrow> ('fs, unit) prog" where
  "whenever b m = (if b then m else ret ())"

text \<open>
  A call of a reading helper, and \<^verbatim>\<open>con.execute(stmt)\<close> with the row it fetches.
\<close>

definition helper :: "('fs \<Rightarrow> string + 'a) \<Rightarrow> ('fs, 'a) prog" where
  "helper h = (\<lambda>fs. case h fs of
                      Inl msg \<Rightarrow> raise (HelperError msg) fs
                    | Inr x \<Rightarrow> ret x fs)"

definition execute :: "('fs, 'md) env \<Rightarrow> string \<Rightarrow> ('fs, int list) prog" where
  "execute env stmt = (\<lambda>fs.
     \<lparr> fs_after = fs, trace = [Execute stmt],
       result = (case engine env fs stmt of
                   Inl msg \<Rightarrow> Inl (EngineError msg)
                 | Inr row \<Rightarrow> Inr row) \<rparr>)"

text \<open>
  \<^verbatim>\<open>row[i]\<close> on the fetched row.
\<close>

definition item :: "int list \<Rightarrow> nat \<Rightarrow> ('fs, int) prog" where
  "item row i = (if i < length row then ret (row ! i) else raise IndexError)"

text \<open>
  A call of a writing helper leaves its event, changes the files, and may raise.
\<close>

definition writer :: "event \<Rightarrow> ('fs \<Rightarrow> 'fs \<times> string option) \<Rightarrow> ('fs, unit) prog" where
  "writer ev w = (\<lambda>fs.
     \<lparr> fs_after = fst (w fs), trace = [ev],
       result = (case snd (w fs) of
                   Some msg \<Rightarrow> Inl (HelperError msg)
                 | None \<Rightarrow> Inr ()) \<rparr>)"

section \<open>Formatting\<close>

text \<open>
  \<^verbatim>\<open>str(n)\<close> and the format \<^verbatim>\<open>{n:,}\<close> of an integer, \<^verbatim>\<open>str.strip()\<close> and
  \<^verbatim>\<open>str.lower()\<close> on ASCII text.
\<close>

definition digit_char :: "nat \<Rightarrow> char" where
  "digit_char d = ''0123456789'' ! (d mod 10)"

function nat_str :: "nat \<Rightarrow> string" where
  "nat_str n = (if n < 10 then [digit_char n] else nat_str (n div 10) @ [digit_char (n mod 10)])"
  by pat_completeness auto
termination
  by (relation "measure id") auto

definition int_str :: "int \<Rightarrow> string" where
  "int_str i = (if i < 0 then ''-'' @ nat_str (nat (- i)) else nat_str (nat i))"

function group_thousands :: "string \<Rightarrow> string" where
  "group_thousands s =
     (if length s \<le> 3 then s
      else group_thousands (take (length s - 3) s) @ '','' @ drop (length s - 3) s)"
  by pat_completeness auto
termination
  by (relation "measure length") auto

definition int_commas :: "int \<Rightarrow> string" where
  "int_commas i =
     (if i < 0 then ''-'' @ group_thousands (nat_str (nat (- i)))
      else group_thousands (nat_str (nat i)))"

definition opt_int_str :: "int option \<Rightarrow> string" where
  "opt_int_str v = (case v of None \<Rightarrow> ''None'' | Some i \<Rightarrow> int_str i)"

definition is_space :: "char \<Rightarrow> bool" where
  "is_space c \<longleftrightarrow> c \<in> set [CHR '' '', CHR 0x09, CHR 0x0A, CHR 0x0B, CHR 0x0C, CHR 0x0D,
                                CHR 0x1C, CHR 0x1D, CHR 0x1E, CHR 0x1F]"

definition strip :: "string \<Rightarrow> string" where
  "strip s = rev (dropWhile is_space (rev (dropWhile is_space s)))"

definition lower_char :: "char \<Rightarrow> char" where
  "lower_char c =
     (let n = (of_char c :: nat) in if 65 \<le> n \<and> n \<le> 90 then char_of (n + 32) else c)"

definition lower :: "string \<Rightarrow> string" where
  "lower s = map lower_char s"

definition or_none :: "string option \<Rightarrow> string" where
  "or_none v = (case v of None \<Rightarrow> ''none'' | Some s \<Rightarrow> if s \<noteq> [] then s else ''none'')"

section \<open>The join request (add\_admin\_divisions\_multi.py)\<close>

subsection \<open>Preparing the admin source\<close>

definition os_path_exists :: "('fs, 'md) env \<Rightarrow> string \<Rightarrow> ('fs, bool) prog" where
  \<open>os_path_exists env path = (\<lambda>fs. ret (path_exists env fs path) fs)\<close>

definition prepare_data_source :: "('fs, 'md) env \<Rightarrow> dataset \<Rightarrow> ('fs, string) prog" where
  \<open>prepare_data_source env d =
     bnd (lift (get_source d)) (\<lambda>source.
     bnd (lift (is_remote d)) (\<lambda>remote.
       if remote then
         bnd (whenever (self_verbose d) (echo (''Using remote dataset: '' @ source))) (\<lambda>_.
         ret (quoted source))
       else
         bnd (os_path_exists env source) (\<lambda>found.
         if \<not> found then raise (ClickException (''Data source file not found: '' @ source))
         else
           bnd (whenever (self_verbose d) (echo (''Using local data source: '' @ source))) (\<lambda>_.
           ret (quoted source)))))\<close>

subsection \<open>Query text\<close>

definition admin_select_part :: "string \<times> string \<Rightarrow> string" where
  \<open>admin_select_part p =
     (case p of (level, col) \<Rightarrow>
        (let output_col_name = ''admin:'' @ level
         in ''b."'' @ col @ ''" as "'' @ output_col_name @ ''"''))\<close>

definition admin_select_clause :: "string list \<Rightarrow> string list \<Rightarrow> string" where
  \<open>admin_select_clause levels partition_columns =
     str_join '', '' (map admin_select_part (zip levels partition_columns))\<close>

definition bbox_condition :: "string \<Rightarrow> string \<Rightarrow> string" where
  \<open>bbox_condition input_bbox_col admin_bbox_col =
     ''(a.'' @ input_bbox_col @ ''.xmin <= b.'' @ admin_bbox_col @ ''.xmax AND\<newline>''
     @ ''        a.'' @ input_bbox_col @ ''.xmax >= b.'' @ admin_bbox_col @ ''.xmin AND\<newline>''
     @ ''        a.'' @ input_bbox_col @ ''.ymin <= b.'' @ admin_bbox_col @ ''.ymax AND\<newline>''
     @ ''        a.'' @ input_bbox_col @ ''.ymax >= b.'' @ admin_bbox_col @ ''.ymin)''\<close>

definition query_head :: "string \<Rightarrow> string \<Rightarrow> string \<Rightarrow> string" where
  \<open>query_head select_clause input_url admin_table_ref =
     ''\<newline>''
     @ ''    SELECT\<newline>''
     @ ''        a.*,\<newline>''
     @ ''        '' @ select_clause @ ''\<newline>''
     @ ''    FROM '' @ quoted input_url @ '' a\<newline>''
     @ ''    LEFT JOIN '' @ admin_table_ref @ '' b\<newline>''\<close>

definition bbox_join_query ::
  "string \<Rightarrow> string \<Rightarrow> string \<Rightarrow> string \<Rightarrow> string \<Rightarrow> string \<Rightarrow> string \<Rightarrow> string" where
  \<open>bbox_join_query select_clause input_url admin_table_ref input_bbox_col admin_bbox_col
       admin_geom_col input_geom_col =
     query_head select_clause input_url admin_table_ref
     @ ''    ON '' @ bbox_condition input_bbox_col admin_bbox_col
     @ ''  -- Fast bbox intersection test\<newline>''
     @ ''        AND ST_Intersects(  -- More expensive precise check only on bbox matches\<newline>''
     @ ''            b.'' @ admin_geom_col @ '',\<newline>''
     @ ''            a.'' @ input_geom_col @ ''\<newline>''
     @ ''        )\<newline>''\<close>

definition exact_join_query ::
  "string \<Rightarrow> string \<Rightarrow> string \<Rightarrow> string \<Rightarrow> string \<Rightarrow> string" where
  \<open>exact_join_query select_clause input_url admin_table_ref admin_geom_col input_geom_col =
     query_head select_clause input_url admin_table_ref
     @ ''    ON ST_Intersects(b.'' @ admin_geom_col @ '', a.'' @ input_geom_col @ '')\<newline>''\<close>

text \<open>
  The text of an \<^verbatim>\<open>Optional[str]\<close> inside an f-string.
\<close>

definition str_of :: "string option \<Rightarrow> string" where
  \<open>str_of v = (case v of None \<Rightarrow> ''None'' | Some s \<Rightarrow> s)\<close>

definition uses_bbox :: "string option \<Rightarrow> string option \<Rightarrow> bool" where
  \<open>uses_bbox input_bbox_col admin_bbox_col \<longleftrightarrow> truthy input_bbox_col \<and> truthy admin_bbox_col\<close>

definition join_query ::
  "string \<Rightarrow> string \<Rightarrow> string \<Rightarrow> string option \<Rightarrow> string option \<Rightarrow> string \<Rightarrow> string \<Rightarrow> string"
  where
  \<open>join_query select_clause input_url admin_table_ref input_bbox_col admin_bbox_col
       admin_geom_col input_geom_col =
     (if uses_bbox input_bbox_col admin_bbox_col
      then bbox_join_query select_clause input_url admin_table_ref
             (str_of input_bbox_col) (str_of admin_bbox_col) admin_geom_col input_geom_col
      else exact_join_query select_clause input_url admin_table_ref admin_geom_col input_geom_col)\<close>

definition compression_str :: "string \<Rightarrow> int option \<Rightarrow> string" where
  \<open>compression_str compression compression_level =
     (if compression \<in> set [''GZIP'', ''ZSTD'', ''BROTLI'']
      then compression @ '':'' @ opt_int_str compression_level
      else compression)\<close>

definition duckdb_compression :: "string \<Rightarrow> string" where
  \<open>duckdb_compression compression =
     (if compression \<noteq> ''UNCOMPRESSED'' then lower compression else ''uncompressed'')\<close>

definition display_query :: "string \<Rightarrow> string \<Rightarrow> string \<Rightarrow> string" where
  \<open>display_query query output_parquet compression =
     ''COPY ('' @ strip query @ '')\<newline>''
     @ ''TO '' @ quoted output_parquet @ ''\<newline>''
     @ ''(FORMAT PARQUET, COMPRESSION '' @ quoted (duckdb_compression compression) @ '');''\<close>

definition admin_cols_check :: "string list \<Rightarrow> string" where
  \<open>admin_cols_check levels =
     str_join '' OR '' (map (\<lambda>level. ''"admin:'' @ level @ ''" IS NOT NULL'') levels)\<close>

definition stats_query :: "string list \<Rightarrow> string \<Rightarrow> string" where
  \<open>stats_query levels output_parquet =
     ''\<newline>''
     @ ''    SELECT\<newline>''
     @ ''        COUNT(*) as total_features,\<newline>''
     @ ''        COUNT(CASE WHEN '' @ admin_cols_check levels
     @ '' THEN 1 END) as features_with_admin\<newline>''
     @ ''    FROM '' @ quoted output_parquet @ '';\<newline>''
     @ ''    ''\<close>

definition count_query :: "string \<Rightarrow> string \<Rightarrow> string" where
  \<open>count_query level output_parquet =
     ''\<newline>''
     @ ''        SELECT COUNT(DISTINCT "admin:'' @ level @ ''") as unique_count\<newline>''
     @ ''        FROM '' @ quoted output_parquet @ ''\<newline>''
     @ ''        WHERE "admin:'' @ level @ ''" IS NOT NULL;\<newline>''
     @ ''        ''\<close>

subsection \<open>The steps of a request\<close>

fun echo_lines :: "string list \<Rightarrow> ('fs, unit) prog" where
  \<open>echo_lines [] = ret ()\<close>
| \<open>echo_lines (l # ls) = bnd (echo l) (\<lambda>_. echo_lines ls)\<close>

fun execute_all :: "('fs, 'md) env \<Rightarrow> string list \<Rightarrow> ('fs, unit) prog" where
  \<open>execute_all env [] = ret ()\<close>
| \<open>execute_all env (stmt # stmts) = bnd (execute env stmt) (\<lambda>_. execute_all env stmts)\<close>

text \<open>
  Lines 59 to 62: the banner of verbose mode.
\<close>

definition verbose_banner :: "dataset \<Rightarrow> string list \<Rightarrow> ('fs, unit) prog" where
  \<open>verbose_banner d levels =
     bnd (echo (''\<newline>Using admin dataset: '' @ get_dataset_name d)) (\<lambda>_.
     bnd (lift (get_source d)) (\<lambda>source.
     bnd (echo (''Data source: '' @ source)) (\<lambda>_.
     echo (''Adding admin levels: '' @ str_join '', '' levels))))\<close>

text \<open>
  Lines 84 to 106: the header of dry-run mode.
\<close>

definition dry_run_header ::
  "string \<Rightarrow> string \<Rightarrow> string \<Rightarrow> string \<Rightarrow> string \<Rightarrow> string option \<Rightarrow> string option
     \<Rightarrow> ('fs, unit) prog" where
  \<open>dry_run_header input_url admin_source output_parquet input_geom_col admin_geom_col
       input_bbox_col admin_bbox_col =
     bnd (echo_styled ''\<newline>=== DRY RUN MODE - SQL Commands that would be executed ===\<newline>''
            ''yellow'' True) (\<lambda>_.
     bnd (echo_styled (''-- Input file: '' @ input_url) ''cyan'' False) (\<lambda>_.
     bnd (echo_styled (''-- Admin dataset: '' @ admin_source) ''cyan'' False) (\<lambda>_.
     bnd (echo_styled (''-- Output file: '' @ output_parquet) ''cyan'' False) (\<lambda>_.
     bnd (echo_styled (''-- Geometry columns: '' @ input_geom_col @ '' (input), ''
            @ admin_geom_col @ '' (admin)'') ''cyan'' False) (\<lambda>_.
     echo_styled (''-- Bbox columns: '' @ or_none input_bbox_col @ '' (input), ''
            @ or_none admin_bbox_col @ '' (admin)\<newline>'') ''cyan'' False)))))\<close>

text \<open>
  Lines 110 to 138, the block under \<^verbatim>\<open>if not dry_run\<close>: the metadata of the input, the
  warning on its bbox structure and the repair of a missing bbox column. It returns the
  metadata and the name of the input's bbox column, read again after a repair.
\<close>

definition check_mark :: string where
  \<open>check_mark = [CHR 0xE2, CHR 0x9C, CHR 0x93]\<close>

definition execute_preamble ::
  "('fs, 'md) env \<Rightarrow> string \<Rightarrow> bool \<Rightarrow> bool \<Rightarrow> bbox_info \<Rightarrow> string \<Rightarrow> string
     \<Rightarrow> ('fs, 'md \<times> string option) prog" where
  \<open>execute_preamble env input_parquet add_bbox_flag verbose_flag input_bbox_info
       input_geom_col admin_geom_col =
     bnd (helper (\<lambda>fs. get_parquet_metadata env fs input_parquet verbose_flag)) (\<lambda>metadata.
     bnd (if status input_bbox_info \<noteq> ''optimal'' then
            bnd (echo_styled (''\<newline>Warning: Input file could benefit from bbox optimization:\<newline>''
                   @ message input_bbox_info) ''yellow'' False) (\<lambda>_.
            if add_bbox_flag \<and> \<not> has_bbox_column input_bbox_info then
              bnd (echo ''Adding bbox column to input file...'') (\<lambda>_.
              bnd (writer (AddBbox input_parquet ''bbox'')
                     (add_bbox env input_parquet ''bbox'' verbose_flag)) (\<lambda>_.
              bnd (echo_styled (check_mark @ '' Added bbox column and metadata to input file'')
                     ''green'' False) (\<lambda>_.
              bnd (helper (\<lambda>fs. check_bbox_structure env fs input_parquet verbose_flag))
                (\<lambda>refreshed.
              ret (bbox_column_name refreshed)))))
            else ret (bbox_column_name input_bbox_info))
          else ret (bbox_column_name input_bbox_info)) (\<lambda>input_bbox_col.
     bnd (whenever verbose_flag
            (echo (''Using geometry columns: '' @ input_geom_col @ '' (input), ''
               @ admin_geom_col @ '' (admin)''))) (\<lambda>_.
     ret (metadata, input_bbox_col))))\<close>

text \<open>
  Lines 142 to 150: the seven statements executed on every new connection.
\<close>

definition session_setup :: "string list" where
  \<open>session_setup =
     [''INSTALL spatial;'', ''LOAD spatial;'', ''INSTALL httpfs;'', ''LOAD httpfs;'',
      ''SET s3_endpoint='data.source.coop';'', ''SET s3_url_style='path';'',
      ''SET s3_use_ssl=true;'']\<close>

text \<open>
  Lines 153 to 155.
\<close>

definition report_input_count :: "('fs, 'md) env \<Rightarrow> string \<Rightarrow> ('fs, unit) prog" where
  \<open>report_input_count env input_url =
     bnd (execute env (''SELECT COUNT(*) FROM '' @ quoted input_url)) (\<lambda>row.
     bnd (item row 0) (\<lambda>total_count.
     echo (''Processing '' @ int_commas total_count @ '' input features...'')))\<close>

text \<open>
  Lines 171 to 205: the message that goes with the choice of the join condition.
\<close>

definition announce_join :: "bool \<Rightarrow> bool \<Rightarrow> bool \<Rightarrow> ('fs, unit) prog" where
  \<open>announce_join with_bbox verbose_flag dry_run =
     (if with_bbox
      then whenever (verbose_flag \<and> \<not> dry_run) (echo ''Using bbox columns for initial filtering...'')
      else whenever (\<not> dry_run)
             (echo ''No bbox columns available, using full geometry intersection...''))\<close>

text \<open>
  Lines 207 to 238: what dry-run mode prints, and the close of the connection.
\<close>

definition dry_run_display ::
  "string \<Rightarrow> bool \<Rightarrow> string \<Rightarrow> string \<Rightarrow> int option \<Rightarrow> ('fs, unit) prog" where
  \<open>dry_run_display query with_bbox output_parquet compression compression_level =
     bnd (echo_styled ''-- Main spatial join query'' ''cyan'' False) (\<lambda>_.
     bnd (if with_bbox
          then echo_styled ''-- Using bbox columns for optimized spatial join'' ''cyan'' False
          else echo_styled ''-- Using full geometry intersection (no bbox optimization)''
                 ''cyan'' False) (\<lambda>_.
     bnd (echo (display_query query output_parquet compression)) (\<lambda>_.
     bnd (echo_styled (''\<newline>-- Note: Using '' @ compression_str compression compression_level
            @ '' compression'') ''cyan'' False) (\<lambda>_.
     bnd (echo_styled ''-- Original metadata would also be preserved in the output file''
            ''cyan'' False) (\<lambda>_.
     emit Close)))))\<close>

text \<open>
  Lines 272 to 280: one query per level.
\<close>

fun unique_counts ::
  "('fs, 'md) env \<Rightarrow> string \<Rightarrow> string list \<Rightarrow> ('fs, (string \<times> int) list) prog" where
  \<open>unique_counts env output_parquet [] = ret []\<close>
| \<open>unique_counts env output_parquet (level # levels) =
     bnd (execute env (count_query level output_parquet)) (\<lambda>row.
     bnd (item row 0) (\<lambda>n.
     bnd (unique_counts env output_parquet levels) (\<lambda>rest.
     ret ((level, n) # rest))))\<close>

text \<open>
  Lines 240 to 291: the join is written, the statistics are read back from the output,
  the connection is closed and the results are printed.
\<close>

definition execute_and_report ::
  "('fs, 'md) env \<Rightarrow> 'md write_args \<Rightarrow> string list \<Rightarrow> ('fs, unit) prog" where
  \<open>execute_and_report env args levels =
     bnd (whenever (w_verbose args) (echo ''Performing spatial join with admin boundaries...''))
       (\<lambda>_.
     bnd (writer (WriteParquet (w_query args) (w_output_parquet args))
            (write_parquet_with_metadata env args)) (\<lambda>_.
     bnd (execute env (stats_query levels (w_output_parquet args))) (\<lambda>stats.
     bnd (item stats 0) (\<lambda>total_features.
     bnd (item stats 1) (\<lambda>features_with_admin.
     bnd (unique_counts env (w_output_parquet args) levels) (\<lambda>counts.
     bnd (emit Close) (\<lambda>_.
     bnd (echo ''\<newline>Results:'') (\<lambda>_.
     bnd (echo (''- Added admin division data to '' @ int_commas features_with_admin @ '' of ''
            @ int_commas total_features @ '' features'')) (\<lambda>_.
     bnd (echo_lines (map (\<lambda>(level, n). ''- Found '' @ int_commas n @ '' unique '' @ level
            @ '' values'') counts)) (\<lambda>_.
     echo (''\<newline>Successfully wrote output to: '' @ w_output_parquet args)))))))))))\<close>

subsection \<open>The request\<close>

text \<open>
  \<^verbatim>\<open>add_admin_divisions_multi\<close>, statement by statement. The registry of the factory
  and the collaborators are parameters; the other parameters are those of the source,
  in its order.
\<close>

definition add_admin_divisions_multi ::
  "('fs, 'md) env \<Rightarrow> registry \<Rightarrow> string \<Rightarrow> string \<Rightarrow> string \<Rightarrow> string list \<Rightarrow> string option
     \<Rightarrow> bool \<Rightarrow> bool \<Rightarrow> bool \<Rightarrow> string \<Rightarrow> int option \<Rightarrow> real option \<Rightarrow> int option
     \<Rightarrow> ('fs, unit) prog" where
  \<open>add_admin_divisions_multi env datasets input_parquet output_parquet dataset_name levels
       dataset_source add_bbox_flag dry_run verbose compression compression_level
       row_group_size_mb row_group_rows =
     bnd (lift (create datasets dataset_name dataset_source verbose)) (\<lambda>d.
     bnd (whenever verbose (verbose_banner d levels)) (\<lambda>_.
     bnd (lift (validate_levels d levels)) (\<lambda>_.
     bnd (lift (get_partition_columns d levels)) (\<lambda>partition_columns.
     bnd (helper (\<lambda>fs. safe_file_url env fs input_parquet verbose)) (\<lambda>input_url.
     bnd (lift (get_source d)) (\<lambda>admin_source.
     bnd (helper (\<lambda>fs. find_primary_geometry_column env fs input_parquet verbose))
       (\<lambda>input_geom_col.
     let admin_geom_col = get_geometry_column d in
     bnd (helper (\<lambda>fs. check_bbox_structure env fs input_parquet verbose)) (\<lambda>input_bbox_info.
     let admin_bbox_col = get_bbox_column d in
     bnd (whenever dry_run
            (dry_run_header input_url admin_source output_parquet input_geom_col admin_geom_col
               (bbox_column_name input_bbox_info) admin_bbox_col)) (\<lambda>_.
     bnd (if \<not> dry_run
          then bnd (execute_preamble env input_parquet add_bbox_flag verbose input_bbox_info
                      input_geom_col admin_geom_col)
                 (\<lambda>(metadata, input_bbox_col). ret (Some metadata, input_bbox_col))
          else ret (None, bbox_column_name input_bbox_info)) (\<lambda>(metadata, input_bbox_col).
     bnd (emit Connect) (\<lambda>_.
     bnd (execute_all env session_setup) (\<lambda>_.
     bnd (whenever (\<not> dry_run) (report_input_count env input_url)) (\<lambda>_.
     bnd (prepare_data_source env d) (\<lambda>admin_table_ref.
     let select_clause = admin_select_clause levels partition_columns;
         with_bbox = uses_bbox input_bbox_col admin_bbox_col in
     bnd (announce_join with_bbox verbose dry_run) (\<lambda>_.
     let query = join_query select_clause input_url admin_table_ref input_bbox_col
                   admin_bbox_col admin_geom_col input_geom_col in
     if dry_run
     then dry_run_display query with_bbox output_parquet compression compression_level
     else execute_and_report env
            \<lparr> w_query = query, w_output_parquet = output_parquet,
              w_original_metadata = metadata, w_compression = compression,
              w_compression_level = compression_level,
              w_row_group_size_mb = row_group_size_mb, w_row_group_rows = row_group_rows,
              w_verbose = verbose \<rparr>
            levels)))))))))))))))\<close>

section \<open>Meaning of the join condition\<close>

text \<open>
  The join itself runs in DuckDB. Its two conditions are read as follows: a geometry is
  the set of its points, \<^verbatim>\<open>ST_Intersects\<close> holds when two geometries share a point,
  and a bbox column holds four bounds. Coordinates are taken from any linear order.
\<close>

record 'c bbox =
  xmin :: 'c
  xmax :: 'c
  ymin :: 'c
  ymax :: 'c

record ('c, 'p) row =
  row_bbox :: "'c bbox"
  row_geometry :: "('c \<times> 'c) set"
  row_payload :: 'p

definition ST_Intersects :: "('c \<times> 'c) set \<Rightarrow> ('c \<times> 'c) set \<Rightarrow> bool" where
  "ST_Intersects g h \<longleftrightarrow> g \<inter> h \<noteq> {}"

text \<open>
  The condition of \<^verbatim>\<open>bbox_condition\<close>, with \<open>a\<close> the input row and \<open>b\<close> the admin row.
\<close>

definition bbox_overlap :: "('c::linorder) bbox \<Rightarrow> 'c bbox \<Rightarrow> bool" where
  "bbox_overlap a b \<longleftrightarrow>
     xmin a \<le> xmax b \<and> xmax a \<ge> xmin b \<and> ymin a \<le> ymax b \<and> ymax a \<ge> ymin b"

text \<open>
  The \<^verbatim>\<open>ON\<close> condition of the query that \<open>join_query\<close> builds: the bbox test and the
  exact test when both sides name a bbox column, the exact test alone otherwise.
\<close>

definition on_condition ::
  "string option \<Rightarrow> string option \<Rightarrow> ('c::linorder, 'p) row \<Rightarrow> ('c, 'q) row \<Rightarrow> bool" where
  "on_condition input_bbox_col admin_bbox_col a b \<longleftrightarrow>
     (if uses_bbox input_bbox_col admin_bbox_col
      then bbox_overlap (row_bbox a) (row_bbox b)
             \<and> ST_Intersects (row_geometry b) (row_geometry a)
      else ST_Intersects (row_geometry b) (row_geometry a))"

text \<open>
  \<^verbatim>\<open>a LEFT JOIN b ON cond\<close>: every input row with each admin row that matches it, or
  once with no admin row when none matches.
\<close>

definition left_join :: "('a \<Rightarrow> 'b \<Rightarrow> bool) \<Rightarrow> 'a list \<Rightarrow> 'b list \<Rightarrow> ('a \<times> 'b option) list" where
  "left_join cond as bs =
     concat (map (\<lambda>a. let matches = filter (cond a) bs
                       in if matches = [] then [(a, None)]
                          else map (\<lambda>b. (a, Some b)) matches) as)"

text \<open>
  A bbox is a true bounding box of a geometry when every point of the geometry lies
  within its bounds.
\<close>

definition true_bbox :: "('c::linorder) bbox \<Rightarrow> ('c \<times> 'c) set \<Rightarrow> bool" where
  "true_bbox bb g \<longleftrightarrow>
     (\<forall>p \<in> g. xmin bb \<le> fst p \<and> fst p \<le> xmax bb \<and> ymin bb \<le> snd p \<and> snd p \<le> ymax bb)"

section \<open>The state of the connection along a trace\<close>

text \<open>
  Whether a connection is open after the events of a trace, given whether one was open
  before.
\<close>

fun session_open :: "bool \<Rightarrow> event list \<Rightarrow> bool" where
  "session_open b [] = b"
| "session_open b (Connect # evs) = session_open True evs"
| "session_open b (Close # evs) = session_open False evs"
| "session_open b (ev # evs) = session_open b evs"

definition executed :: "event list \<Rightarrow> string list" where
  "executed evs = concat (map (\<lambda>ev. case ev of Execute stmt \<Rightarrow> [stmt] | _ \<Rightarrow> []) evs)"

definition file_writes :: "event list \<Rightarrow> event list" where
  "file_writes evs =
     filter (\<lambda>ev. case ev of AddBbox f c \<Rightarrow> True | WriteParquet q f \<Rightarrow> True | _ \<Rightarrow> False) evs"

section \<open>Example collaborators\<close>

text \<open>
  Collaborators for concrete runs. The file state counts the calls that wrote a file.
  \<open>example_env\<close>: every path exists, the input has an optimal bbox column named
  \<^verbatim>\<open>bbox\<close>, every statement succeeds. \<open>offline_env\<close>: the engine cannot install an
  extension. \<open>missing_source_env\<close>: no local path exists.
\<close>

definition example_bbox_info :: bbox_info where
  "example_bbox_info =
     \<lparr> bbox_column_name = Some ''bbox'', status = ''optimal'', has_bbox_column = True,
       message = [] \<rparr>"

definition example_env :: "(nat, unit) env" where
  "example_env =
     \<lparr> path_exists = (\<lambda>fs path. True),
       safe_file_url = (\<lambda>fs path v. Inr path),
       find_primary_geometry_column = (\<lambda>fs path v. Inr ''geometry''),
       check_bbox_structure = (\<lambda>fs path v. Inr example_bbox_info),
       get_parquet_metadata = (\<lambda>fs path v. Inr ()),
       add_bbox = (\<lambda>path col v fs. (Suc fs, None)),
       write_parquet_with_metadata = (\<lambda>args fs. (Suc fs, None)),
       engine = (\<lambda>fs stmt. Inr [100, 60]) \<rparr>"

definition offline_env :: "(nat, unit) env" where
  "offline_env =
     example_env \<lparr> engine := (\<lambda>fs stmt.
       if stmt = ''INSTALL spatial;'' then Inl ''IO Error: Failed to download extension''
       else Inr [100, 60]) \<rparr>"

definition missing_source_env :: "(nat, unit) env" where
  "missing_source_env = example_env \<lparr> path_exists := (\<lambda>fs path. False) \<rparr>"

text \<open>
  Two input features and two admin polygons on integer coordinates, each with the true
  bounding box of its points. The second polygon overlaps the first feature's bbox
  without touching the feature.
\<close>

definition example_inputs :: "(int, string) row list" where
  "example_inputs =
     [\<lparr> row_bbox = \<lparr> xmin = 0, xmax = 2, ymin = 0, ymax = 2 \<rparr>,
        row_geometry = {(0, 0), (2, 2)}, row_payload = ''f1'' \<rparr>,
      \<lparr> row_bbox = \<lparr> xmin = 10, xmax = 11, ymin = 10, ymax = 11 \<rparr>,
        row_geometry = {(10, 10), (11, 11)}, row_payload = ''f2'' \<rparr>]"

definition example_admins :: "(int, string) row list" where
  "example_admins =
     [\<lparr> row_bbox = \<lparr> xmin = 1, xmax = 5, ymin = 1, ymax = 5 \<rparr>,
        row_geometry = {(1, 1), (2, 2), (5, 5)}, row_payload = ''A'' \<rparr>,
      \<lparr> row_bbox = \<lparr> xmin = 1, xmax = 3, ymin = 0, ymax = 1 \<rparr>,
        row_geometry = {(1, 0), (3, 1)}, row_payload = ''B'' \<rparr>]"

section \<open>Properties of computations\<close>

text \<open>
  \<open>emits A m\<close>: every event of \<open>m\<close> is in \<open>A\<close>. \<open>keeps_files m\<close>: \<open>m\<close> leaves the
  file state as it found it. \<open>never_fails m\<close>: \<open>m\<close> returns a value.
\<close>

definition emits :: "event set \<Rightarrow> ('fs, 'a) prog \<Rightarrow> bool" where
  "emits A m \<longleftrightarrow> (\<forall>fs. set (trace (m fs)) \<subseteq> A)"

definition keeps_files :: "('fs, 'a) prog \<Rightarrow> bool" where
  "keeps_files m \<longleftrightarrow> (\<forall>fs. fs_after (m fs) = fs)"

definition never_fails :: "('fs, 'a) prog \<Rightarrow> bool" where
  "never_fails m \<longleftrightarrow> (\<forall>fs. \<not> isl (result (m fs)))"

fun is_echo :: "event \<Rightarrow> bool" where
  "is_echo (Echo s) = True"
| "is_echo (EchoStyled s fg bold) = True"
| "is_echo ev = False"

fun is_file_write :: "event \<Rightarrow> bool" where
  "is_file_write (AddBbox f c) = True"
| "is_file_write (WriteParquet q f) = True"
| "is_file_write ev = False"

fun is_session_event :: "event \<Rightarrow> bool" where
  "is_session_event Connect = True"
| "is_session_event Close = True"
| "is_session_event ev = False"

fun is_execute :: "event \<Rightarrow> bool" where
  "is_execute (Execute stmt) = True"
| "is_execute ev = False"

text \<open>
  \<open>runs S m\<close>: the statements \<open>m\<close> executes are the first statements of \<open>S\<close>, and all of
  \<open>S\<close> when \<open>m\<close> returns a value.
\<close>

definition runs :: "string list \<Rightarrow> ('fs, 'a) prog \<Rightarrow> bool" where
  "runs S m \<longleftrightarrow>
     (\<forall>fs. prefix (executed (trace (m fs))) S
           \<and> (\<not> isl (result (m fs)) \<longrightarrow> executed (trace (m fs)) = S))"

text \<open>
  \<open>closes m\<close>: started with an open connection, \<open>m\<close> leaves it open exactly when it
  raises. \<open>connects m\<close>: started without a connection, \<open>m\<close> leaves one open exactly when
  it opened one and raises, and opens one whenever it returns a value.
\<close>

definition closes :: "('fs, 'a) prog \<Rightarrow> bool" where
  "closes m \<longleftrightarrow> (\<forall>fs. session_open True (trace (m fs)) = isl (result (m fs)))"

definition connects :: "('fs, 'a) prog \<Rightarrow> bool" where
  "connects m \<longleftrightarrow>
     (\<forall>fs. session_open False (trace (m fs))
             = (Connect \<in> set (trace (m fs)) \<and> isl (result (m fs)))
           \<and> (\<not> isl (result (m fs)) \<longrightarrow> Connect \<in> set (trace (m fs))))"

text \<open>
  An exception that comes from the dataset object: raised by the constructor call of
  \<^verbatim>\<open>create\<close>, or by \<^verbatim>\<open>get_source\<close> of the instance created.
\<close>

definition dataset_raises :: "registry \<Rightarrow> string \<Rightarrow> string option \<Rightarrow> bool \<Rightarrow> error \<Rightarrow> bool" where
  "dataset_raises datasets dataset_name sp v e \<longleftrightarrow>
     (case create datasets dataset_name sp v of
        Inl e' \<Rightarrow> e' = e
      | Inr d \<Rightarrow> get_source d = Inl e)"

text \<open>
  \<open>engine_errors_from Q m\<close>: \<open>m\<close> keeps the files, and an engine error that \<open>m\<close> raises
  satisfies \<open>Q\<close> with the file state.
\<close>

definition engine_errors_from :: "('fs \<Rightarrow> string \<Rightarrow> bool) \<Rightarrow> ('fs, 'a) prog \<Rightarrow> bool" where
  "engine_errors_from Q m \<longleftrightarrow>
     (\<forall>fs. fs_after (m fs) = fs
           \<and> (\<forall>msg. result (m fs) = Inl (EngineError msg) \<longrightarrow> Q fs msg))"




section \<open>Properties of the admin datasets\<close>

subsection \<open>Level validation\<close>

lemma sublist_str_join:
  "x \<in> set xs \<Longrightarrow> sublist x (str_join sep xs)"
proof (induction sep xs rule: str_join.induct)
  case (1 sep)
  then show ?case by simp
next
  case (2 sep y)
  then show ?case by simp
next
  case (3 sep y z zs)
  show ?case
  proof (cases "x = y")
    case True
    then show ?thesis by (simp add: sublist_append_rightI)
  next
    case False
    with 3 have "sublist x (str_join sep (z # zs))" by simp
    then obtain ps ss where "str_join sep (z # zs) = ps @ x @ ss"
      by (auto simp: sublist_def)
    then have "str_join sep (y # z # zs) = (y @ sep @ ps) @ x @ ss" by simp
    then show ?thesis unfolding sublist_def by blast
  qed
qed

lemma sublist_embed:
  assumes "sublist x y"
  shows "sublist x (p @ y @ s)"
proof -
  from assms obtain ps ss where "y = ps @ x @ ss"
    by (auto simp: sublist_def)
  then have "p @ y @ s = (p @ ps) @ x @ (ss @ s)" by simp
  then show ?thesis unfolding sublist_def by blast
qed

lemma sublist_embed_end: "sublist x y \<Longrightarrow> sublist x (p @ y)"
  using sublist_embed [of x y p "[]"] by simp

lemma invalid_levels_empty_iff:
  "invalid_levels d levels = [] \<longleftrightarrow> set levels \<subseteq> set (get_available_levels d)"
  by (auto simp: invalid_levels_def filter_empty_conv)

lemma sublist_in_message_invalid:
  assumes "l \<in> set invalid"
  shows "sublist l (invalid_levels_message d invalid)"
proof -
  have "invalid_levels_message d invalid =
      (''Invalid levels for '' @ get_dataset_name d @ '': '') @ str_join '', '' invalid
      @ (''. '' @ ''Available levels: '' @ str_join '', '' (get_available_levels d))"
    by (simp add: invalid_levels_message_def)
  then show ?thesis
    by (simp only: sublist_embed [OF sublist_str_join [OF assms]])
qed

lemma sublist_in_message_available:
  assumes "a \<in> set (get_available_levels d)"
  shows "sublist a (invalid_levels_message d invalid)"
proof -
  have "invalid_levels_message d invalid =
      (''Invalid levels for '' @ get_dataset_name d @ '': '' @ str_join '', '' invalid
      @ ''. '' @ ''Available levels: '') @ str_join '', '' (get_available_levels d)"
    by (simp add: invalid_levels_message_def)
  then show ?thesis
    by (simp only: sublist_embed_end [OF sublist_str_join [OF assms]])
qed

text \<open>
  Claim C6. For every dataset and every list of requested levels: when every requested
  level is available, \<open>validate_levels\<close> returns without error; otherwise it raises a
  usage error whose message is built from all the requested levels that are not
  available, so that each of them, and each available level, occurs in the message.
\<close>

theorem validate_levels_reports_every_invalid_level:
  "(set levels \<subseteq> set (get_available_levels d) \<longrightarrow> validate_levels d levels = Inr ())
   \<and> (\<not> set levels \<subseteq> set (get_available_levels d) \<longrightarrow>
        validate_levels d levels
          = Inl (UsageError (invalid_levels_message d (invalid_levels d levels)))
        \<and> set (invalid_levels d levels) = set levels - set (get_available_levels d)
        \<and> (\<forall>level \<in> set levels. level \<notin> set (get_available_levels d) \<longrightarrow>
              sublist level (invalid_levels_message d (invalid_levels d levels)))
        \<and> (\<forall>level \<in> set (get_available_levels d).
              sublist level (invalid_levels_message d (invalid_levels d levels))))"
proof (intro conjI impI ballI)
  assume "set levels \<subseteq> set (get_available_levels d)"
  then show "validate_levels d levels = Inr ()"
    by (simp add: validate_levels_def invalid_levels_empty_iff)
next
  assume "\<not> set levels \<subseteq> set (get_available_levels d)"
  then show "validate_levels d levels
      = Inl (UsageError (invalid_levels_message d (invalid_levels d levels)))"
    by (simp add: validate_levels_def invalid_levels_empty_iff)
next
  show "set (invalid_levels d levels) = set levels - set (get_available_levels d)"
    by (auto simp: invalid_levels_def)
next
  fix level
  assume "level \<in> set levels" "level \<notin> set (get_available_levels d)"
  then have "level \<in> set (invalid_levels d levels)"
    by (simp add: invalid_levels_def)
  then show "sublist level (invalid_levels_message d (invalid_levels d levels))"
    by (rule sublist_in_message_invalid)
next
  fix level
  assume "level \<in> set (get_available_levels d)"
  then show "sublist level (invalid_levels_message d (invalid_levels d levels))"
    by (rule sublist_in_message_available)
qed

theorem validate_levels_reports_every_invalid_level_witness:
  "validate_levels (OvertureAdminDataset None False) [''province'', ''country'', ''zz'']
     = Inl (UsageError ''Invalid levels for Overture Maps Divisions: province, zz. Available levels: country, region'')
   \<and> sublist ''zz'' (invalid_levels_message (OvertureAdminDataset None False) [''province'', ''zz''])
   \<and> validate_levels (OvertureAdminDataset None False) [''region'', ''country''] = Inr ()"
  using validate_levels_reports_every_invalid_level
          [of "[''province'', ''country'', ''zz'']" "OvertureAdminDataset None False"]
        validate_levels_reports_every_invalid_level
          [of "[''region'', ''country'']" "OvertureAdminDataset None False"]
  by (simp add: OvertureAdminDataset_def invalid_levels_def invalid_levels_message_def)

subsection \<open>Source resolution\<close>

lemma prepare_data_source_result:
  "get_source d = Inr s \<Longrightarrow>
   result (prepare_data_source env d fs)
     = (if startswith_remote s \<or> path_exists env fs s then Inr (quoted s)
        else Inl (ClickException (''Data source file not found: '' @ s)))"
  by (simp add: prepare_data_source_def is_remote_def bnd_def lift_def ret_def raise_def
        whenever_def echo_def emit_def os_path_exists_def Let_def)

text \<open>
  Claim C10. For every dataset, an override that is the empty string is treated as no
  override: \<open>get_source\<close> gives what \<open>get_default_source\<close> gives (its value or the
  exception it raises), \<open>is_remote\<close> tests the default source, and
  \<open>prepare_data_source\<close> behaves as without an override, checking and returning the
  default source.
\<close>

theorem empty_override_is_default_source:
  "get_source (d\<lparr>self_source_path := Some ''''\<rparr>) = get_default_source d
   \<and> get_source (d\<lparr>self_source_path := None\<rparr>) = get_default_source d
   \<and> is_remote (d\<lparr>self_source_path := Some ''''\<rparr>)
       = (case get_default_source d of Inl e \<Rightarrow> Inl e | Inr s \<Rightarrow> Inr (startswith_remote s))
   \<and> prepare_data_source env (d\<lparr>self_source_path := Some ''''\<rparr>)
       = prepare_data_source env (d\<lparr>self_source_path := None\<rparr>)
   \<and> (\<forall>s. get_default_source d = Inr s \<longrightarrow>
         result (prepare_data_source env (d\<lparr>self_source_path := Some ''''\<rparr>) fs)
           = (if startswith_remote s \<or> path_exists env fs s then Inr (quoted s)
              else Inl (ClickException (''Data source file not found: '' @ s))))"
proof -
  have src: "get_source (d\<lparr>self_source_path := Some ''''\<rparr>) = get_default_source d"
    by (simp add: get_source_def)
  have src': "get_source (d\<lparr>self_source_path := None\<rparr>) = get_default_source d"
    by (simp add: get_source_def)
  have "prepare_data_source env (d\<lparr>self_source_path := Some ''''\<rparr>)
       = prepare_data_source env (d\<lparr>self_source_path := None\<rparr>)"
    by (simp add: prepare_data_source_def is_remote_def src src' cong: if_cong)
  moreover have "\<forall>s. get_default_source d = Inr s \<longrightarrow>
         result (prepare_data_source env (d\<lparr>self_source_path := Some []\<rparr>) fs)
           = (if startswith_remote s \<or> path_exists env fs s then Inr (quoted s)
              else Inl (ClickException (''Data source file not found: '' @ s)))"
  proof (intro allI impI)
    fix s
    assume "get_default_source d = Inr s"
    with src have "get_source (d\<lparr>self_source_path := Some []\<rparr>) = Inr s" by simp
    then show "result (prepare_data_source env (d\<lparr>self_source_path := Some []\<rparr>) fs)
           = (if startswith_remote s \<or> path_exists env fs s then Inr (quoted s)
              else Inl (ClickException (''Data source file not found: '' @ s)))"
      by (rule prepare_data_source_result)
  qed
  ultimately show ?thesis
    using src src' by (simp add: is_remote_def)
qed

theorem empty_override_is_default_source_witness:
  "get_source (OvertureAdminDataset (Some '''') False)
     = Inr ''s3://overturemaps-us-west-2/release/2025-10-22.0/theme=divisions/type=division_area/*''
   \<and> is_remote (OvertureAdminDataset (Some '''') False) = Inr True"
  using empty_override_is_default_source
          [where d = "OvertureAdminDataset (Some '''') False" and env = example_env and fs = 0]
  by (simp add: OvertureAdminDataset_def startswith_remote_def)

subsection \<open>Levels and their columns\<close>





subsection \<open>The registry\<close>

lemma map_of_dict_set_same: "map_of (dict_set k v kvs) k = Some v"
  by (induction kvs) auto

lemma map_of_dict_set_other: "k' \<noteq> k \<Longrightarrow> map_of (dict_set k v kvs) k' = map_of kvs k'"
  by (induction kvs) auto

text \<open>
  Claim C9 fails as stated: the abstract base class passes the subclass test of
  \<open>register_dataset\<close>, and \<open>create\<close> with its identifier raises a type error instead of
  returning an instance.
\<close>

theorem register_abstract_class_then_create_fails:
  "snd (register_dataset ''base'' AdminDataset_class builtin_datasets) = None
   \<and> create (fst (register_dataset ''base'' AdminDataset_class builtin_datasets))
        ''base'' None False
     = Inl (TypeError ''Can't instantiate abstract class AdminDataset'')"
  by (simp add: register_dataset_def AdminDataset_class_def builtin_datasets_def create_def)

text \<open>
  Claim C9, as amended. Registering a subclass of \<^verbatim>\<open>AdminDataset\<close> succeeds and changes
  no other entry; \<open>create\<close> with that identifier then returns what calling the registered
  class with the source and the verbose flag returns, an instance or the exception of
  that call. Registering a class that is not a subclass raises a type error and leaves
  the registry as it was.
\<close>

theorem register_then_create:
  "(subclass_of_AdminDataset c \<longrightarrow>
      snd (register_dataset name c datasets) = None
      \<and> create (fst (register_dataset name c datasets)) name sp v = construct c sp v
      \<and> (\<forall>other. other \<noteq> name \<longrightarrow>
            map_of (fst (register_dataset name c datasets)) other = map_of datasets other))
   \<and> (\<not> subclass_of_AdminDataset c \<longrightarrow>
      register_dataset name c datasets
        = (datasets, Some (TypeError (cls_repr c @ '' must be a subclass of AdminDataset''))))"
  by (simp add: register_dataset_def create_def map_of_dict_set_same map_of_dict_set_other)

theorem register_then_create_witness:
  "create (fst (register_dataset ''gaul2'' GAULAdminDataset_class builtin_datasets))
     ''gaul2'' None True = Inr (GAULAdminDataset None True)
   \<and> register_dataset ''bad''
        \<lparr> cls_repr = ''<class 'str'>'', subclass_of_AdminDataset = False,
          construct = (\<lambda>sp v. Inl (TypeError [])) \<rparr> builtin_datasets
     = (builtin_datasets, Some (TypeError ''<class 'str'> must be a subclass of AdminDataset''))"
  using register_then_create
          [where c = GAULAdminDataset_class and name = "''gaul2''"
             and datasets = builtin_datasets and sp = None and v = True]
        register_then_create
          [where c = "\<lparr> cls_repr = ''<class 'str'>'', subclass_of_AdminDataset = False,
                        construct = (\<lambda>sp v. Inl (TypeError [])) \<rparr>"
             and name = "''bad''" and datasets = builtin_datasets and sp = None and v = True]
  by (simp add: GAULAdminDataset_class_def)

section \<open>The bbox test as a pre-filter\<close>

lemma true_bbox_overlap:
  assumes "true_bbox ba ga" and "true_bbox bb gb" and "ST_Intersects gb ga"
  shows "bbox_overlap ba bb"
proof -
  from assms(3) obtain p where pa: "p \<in> ga" and pb: "p \<in> gb"
    by (auto simp: ST_Intersects_def)
  from assms(1) pa have a: "xmin ba \<le> fst p" "fst p \<le> xmax ba" "ymin ba \<le> snd p" "snd p \<le> ymax ba"
    by (auto simp: true_bbox_def)
  from assms(2) pb have b: "xmin bb \<le> fst p" "fst p \<le> xmax bb" "ymin bb \<le> snd p" "snd p \<le> ymax bb"
    by (auto simp: true_bbox_def)
  from a b show ?thesis
    unfolding bbox_overlap_def by (meson order_trans)
qed

lemma left_join_cong:
  "(\<And>a b. a \<in> set as \<Longrightarrow> b \<in> set bs \<Longrightarrow> c1 a b = c2 a b) \<Longrightarrow>
   left_join c1 as bs = left_join c2 as bs"
proof -
  assume h: "\<And>a b. a \<in> set as \<Longrightarrow> b \<in> set bs \<Longrightarrow> c1 a b = c2 a b"
  have "\<And>a. a \<in> set as \<Longrightarrow> filter (c1 a) bs = filter (c2 a) bs"
    using h by (auto intro: filter_cong)
  then show ?thesis
    unfolding left_join_def by (auto intro!: arg_cong [where f = concat] map_cong simp: Let_def)
qed

text \<open>
  Claim C1. When the bbox of every input row and of every admin row is a true bounding
  box of the row's geometry, the left join on the condition built with bbox columns
  returns the same rows as the left join on the exact condition alone, and the bbox test
  holds for every pair of rows whose geometries intersect.
\<close>

theorem bbox_prefilter_preserves_join:
  assumes "\<forall>a \<in> set as. true_bbox (row_bbox a) (row_geometry a)"
    and "\<forall>b \<in> set bs. true_bbox (row_bbox b) (row_geometry b)"
  shows "left_join (on_condition input_bbox_col admin_bbox_col) as bs
           = left_join (on_condition None None) as bs
         \<and> (\<forall>a \<in> set as. \<forall>b \<in> set bs.
               ST_Intersects (row_geometry b) (row_geometry a)
                 \<longrightarrow> bbox_overlap (row_bbox a) (row_bbox b))"
proof -
  have safe: "bbox_overlap (row_bbox a) (row_bbox b)"
    if "a \<in> set as" "b \<in> set bs" "ST_Intersects (row_geometry b) (row_geometry a)" for a b
    using that assms by (auto intro: true_bbox_overlap)
  have "on_condition input_bbox_col admin_bbox_col a b = on_condition None None a b"
    if "a \<in> set as" "b \<in> set bs" for a b
    using safe [OF that] by (auto simp: on_condition_def uses_bbox_def)
  then have "left_join (on_condition input_bbox_col admin_bbox_col) as bs
           = left_join (on_condition None None) as bs"
    by (rule left_join_cong)
  with safe show ?thesis by blast
qed

theorem bbox_prefilter_preserves_join_witness:
  "list_all (\<lambda>a. true_bbox (row_bbox a) (row_geometry a)) example_inputs
   \<and> list_all (\<lambda>b. true_bbox (row_bbox b) (row_geometry b)) example_admins
   \<and> left_join (on_condition (Some ''bbox'') (Some ''geometry_bbox'')) example_inputs example_admins
       = left_join (on_condition None None) example_inputs example_admins
   \<and> map (\<lambda>(a, b). (row_payload a, map_option row_payload b))
         (left_join (on_condition None None) example_inputs example_admins)
       = [(''f1'', Some ''A''), (''f2'', None)]
   \<and> bbox_overlap (row_bbox (example_inputs ! 0)) (row_bbox (example_admins ! 1))"
proof -
  have a: "\<forall>a \<in> set example_inputs. true_bbox (row_bbox a) (row_geometry a)"
    by (simp add: example_inputs_def true_bbox_def)
  have b: "\<forall>b \<in> set example_admins. true_bbox (row_bbox b) (row_geometry b)"
    by (simp add: example_admins_def true_bbox_def)
  have c: "map (\<lambda>(a, b). (row_payload a, map_option row_payload b))
         (left_join (on_condition None None) example_inputs example_admins)
       = [(''f1'', Some ''A''), (''f2'', None)]"
    by (simp add: left_join_def on_condition_def uses_bbox_def ST_Intersects_def
          example_inputs_def example_admins_def)
  have d: "bbox_overlap (row_bbox (example_inputs ! 0)) (row_bbox (example_admins ! 1))"
    by (simp add: bbox_overlap_def example_inputs_def example_admins_def)
  from bbox_prefilter_preserves_join [OF a b, of "Some ''bbox''" "Some ''geometry_bbox''"] a b c d
  show ?thesis by (simp add: list_all_iff)
qed

section \<open>Properties of a join request\<close>

subsection \<open>Sequencing\<close>

lemma trace_bnd:
  "trace (bnd m f fs)
     = (case result (m fs) of
          Inl e \<Rightarrow> trace (m fs)
        | Inr x \<Rightarrow> trace (m fs) @ trace (f x (fs_after (m fs))))"
  by (simp add: bnd_def Let_def split: sum.splits)

lemma result_bnd:
  "result (bnd m f fs)
     = (case result (m fs) of
          Inl e \<Rightarrow> Inl e
        | Inr x \<Rightarrow> result (f x (fs_after (m fs))))"
  by (simp add: bnd_def Let_def split: sum.splits)

lemma fs_after_bnd:
  "fs_after (bnd m f fs)
     = (case result (m fs) of
          Inl e \<Rightarrow> fs_after (m fs)
        | Inr x \<Rightarrow> fs_after (f x (fs_after (m fs))))"
  by (simp add: bnd_def Let_def split: sum.splits)

lemma whenever_simps: "whenever True m = m" "whenever False m = ret ()"
  by (simp_all add: whenever_def)

subsection \<open>Events\<close>

lemma emits_ret: "emits A (ret x)"
  by (simp add: emits_def ret_def)

lemma emits_raise: "emits A (raise e)"
  by (simp add: emits_def raise_def)

lemma emits_lift: "emits A (lift r)"
  by (cases r) (simp_all add: lift_def emits_ret emits_raise)

lemma emits_helper: "emits A (helper h)"
  by (simp add: emits_def helper_def ret_def raise_def split: sum.splits)

lemma emits_item: "emits A (item row i)"
  by (simp add: item_def emits_ret emits_raise)

lemma emits_os_path_exists: "emits A (os_path_exists env path)"
  by (simp add: emits_def os_path_exists_def ret_def)

lemma emits_emit: "ev \<in> A \<Longrightarrow> emits A (emit ev)"
  by (simp add: emits_def emit_def)

lemma emits_echo: "Echo s \<in> A \<Longrightarrow> emits A (echo s)"
  by (simp add: echo_def emits_emit)

lemma emits_echo_styled: "EchoStyled s fg b \<in> A \<Longrightarrow> emits A (echo_styled s fg b)"
  by (simp add: echo_styled_def emits_emit)

lemma emits_execute: "Execute stmt \<in> A \<Longrightarrow> emits A (execute env stmt)"
  by (simp add: emits_def execute_def)

lemma emits_writer: "ev \<in> A \<Longrightarrow> emits A (writer ev w)"
  by (simp add: emits_def writer_def)

lemma emits_bnd: "emits A m \<Longrightarrow> (\<And>x. emits A (f x)) \<Longrightarrow> emits A (bnd m f)"
  by (auto simp: emits_def trace_bnd split: sum.splits)

lemma emits_whenever: "emits A m \<Longrightarrow> emits A (whenever b m)"
  by (simp add: whenever_def emits_ret)

lemma emits_if: "emits A m \<Longrightarrow> emits A n \<Longrightarrow> emits A (if b then m else n)"
  by simp

lemma emits_case_prod: "(\<And>a b. emits A (f a b)) \<Longrightarrow> emits A (case_prod f p)"
  by (cases p) simp

lemmas emits_rules =
  emits_ret emits_raise emits_lift emits_helper emits_item emits_os_path_exists
  emits_bnd emits_whenever emits_if emits_case_prod emits_echo emits_echo_styled
  emits_emit emits_execute emits_writer

lemma emits_echo_lines: "Collect is_echo \<subseteq> A \<Longrightarrow> emits A (echo_lines ls)"
  by (induction ls) (auto intro!: emits_rules)

lemma emits_execute_all:
  "(\<And>stmt. stmt \<in> set stmts \<Longrightarrow> Execute stmt \<in> A) \<Longrightarrow> emits A (execute_all env stmts)"
  by (induction stmts) (auto intro!: emits_rules)

lemma emits_unique_counts:
  "(\<And>level. Execute (count_query level out) \<in> A) \<Longrightarrow>
   emits A (unique_counts env out levels)"
  by (induction levels) (auto intro!: emits_rules)

subsection \<open>Files\<close>

lemma keeps_ret: "keeps_files (ret x)"
  by (simp add: keeps_files_def ret_def)

lemma keeps_raise: "keeps_files (raise e)"
  by (simp add: keeps_files_def raise_def)

lemma keeps_lift: "keeps_files (lift r)"
  by (cases r) (simp_all add: lift_def keeps_ret keeps_raise)

lemma keeps_helper: "keeps_files (helper h)"
  by (simp add: keeps_files_def helper_def ret_def raise_def split: sum.splits)

lemma keeps_item: "keeps_files (item row i)"
  by (simp add: item_def keeps_ret keeps_raise)

lemma keeps_os_path_exists: "keeps_files (os_path_exists env path)"
  by (simp add: keeps_files_def os_path_exists_def ret_def)

lemma keeps_emit: "keeps_files (emit ev)"
  by (simp add: keeps_files_def emit_def)

lemma keeps_echo: "keeps_files (echo s)"
  by (simp add: echo_def keeps_emit)

lemma keeps_echo_styled: "keeps_files (echo_styled s fg b)"
  by (simp add: echo_styled_def keeps_emit)

lemma keeps_execute: "keeps_files (execute env stmt)"
  by (simp add: keeps_files_def execute_def)

lemma keeps_bnd: "keeps_files m \<Longrightarrow> (\<And>x. keeps_files (f x)) \<Longrightarrow> keeps_files (bnd m f)"
  by (auto simp: keeps_files_def fs_after_bnd split: sum.splits)

lemma keeps_whenever: "keeps_files m \<Longrightarrow> keeps_files (whenever b m)"
  by (simp add: whenever_def keeps_ret)

lemma keeps_if: "keeps_files m \<Longrightarrow> keeps_files n \<Longrightarrow> keeps_files (if b then m else n)"
  by simp

lemma keeps_case_prod: "(\<And>a b. keeps_files (f a b)) \<Longrightarrow> keeps_files (case_prod f p)"
  by (cases p) simp

lemmas keeps_rules =
  keeps_ret keeps_raise keeps_lift keeps_helper keeps_item keeps_os_path_exists
  keeps_bnd keeps_whenever keeps_if keeps_case_prod keeps_echo keeps_echo_styled
  keeps_emit keeps_execute

lemma keeps_echo_lines: "keeps_files (echo_lines ls)"
  by (induction ls) (auto intro!: keeps_rules)


subsection \<open>The steps of a request\<close>

lemma emits_verbose_banner: "Collect is_echo \<subseteq> A \<Longrightarrow> emits A (verbose_banner d levels)"
  unfolding verbose_banner_def by (intro emits_rules) auto

lemma emits_dry_run_header:
  "Collect is_echo \<subseteq> A \<Longrightarrow> emits A (dry_run_header iu asrc out ig ag ib ab)"
  unfolding dry_run_header_def by (intro emits_rules) auto

lemma emits_prepare_data_source:
  "Collect is_echo \<subseteq> A \<Longrightarrow> emits A (prepare_data_source env d)"
  unfolding prepare_data_source_def by (intro emits_rules) auto

lemma emits_announce_join: "Collect is_echo \<subseteq> A \<Longrightarrow> emits A (announce_join wb v dr)"
  unfolding announce_join_def by (intro emits_rules) auto

lemma emits_dry_run_display:
  "Collect is_echo \<subseteq> A \<Longrightarrow> Close \<in> A \<Longrightarrow> emits A (dry_run_display q wb out c cl)"
  unfolding dry_run_display_def by (intro emits_rules) auto






subsection \<open>Dry-run mode\<close>


lemma dry_run_emits:
  "emits {ev. \<not> is_file_write ev \<and> (\<forall>stmt. ev = Execute stmt \<longrightarrow> stmt \<in> set session_setup)}
     (add_admin_divisions_multi env datasets input_parquet output_parquet
     dataset_name levels dataset_source add_bbox_flag True verbose_flag compression
     compression_level row_group_size_mb row_group_rows)"
  unfolding add_admin_divisions_multi_def Let_def
  apply (simp only: not_True_eq_False if_False if_True whenever_simps)
  apply (intro emits_rules emits_verbose_banner emits_dry_run_header emits_execute_all
      emits_prepare_data_source emits_announce_join emits_dry_run_display)
  apply (auto elim: is_echo.elims)
  done

subsection \<open>Steps that only print, and steps that execute\<close>

lemma emits_report_input_count:
  "Collect is_echo \<subseteq> A \<Longrightarrow> Execute (''SELECT COUNT(*) FROM '' @ quoted url) \<in> A \<Longrightarrow>
   emits A (report_input_count env url)"
  unfolding report_input_count_def by (intro emits_rules) auto

lemma emits_execute_preamble:
  "Collect is_echo \<subseteq> A \<Longrightarrow> (\<And>f c. AddBbox f c \<in> A) \<Longrightarrow>
   emits A (execute_preamble env inp abf v info ig ag)"
  unfolding execute_preamble_def by (intro emits_rules) auto

lemmas print_shapes =
  emits_ret emits_lift emits_helper emits_item emits_echo emits_echo_styled
  emits_whenever emits_if emits_echo_lines
  emits_verbose_banner emits_dry_run_header emits_prepare_data_source emits_announce_join

lemmas execute_shapes =
  emits_execute emits_execute_all emits_unique_counts emits_report_input_count

lemmas write_shapes =
  emits_writer emits_execute_preamble

lemmas shape_rules = print_shapes execute_shapes write_shapes

subsection \<open>Statements executed\<close>

lemma executed_append: "executed (t1 @ t2) = executed t1 @ executed t2"
  by (simp add: executed_def)

lemma executed_none: "set t \<subseteq> {ev. \<not> is_execute ev} \<Longrightarrow> executed t = []"
proof (induction t)
  case Nil
  then show ?case by (simp add: executed_def)
next
  case (Cons ev t)
  then have "\<not> is_execute ev" and "executed t = []" by auto
  then show ?case by (cases ev) (simp_all add: executed_def)
qed

lemma runs_bnd_before:
  assumes "emits {ev. \<not> is_execute ev} m" and "\<And>x. runs S (f x)"
  shows "runs S (bnd m f)"
proof -
  have none: "executed (trace (m fs)) = []" for fs
    using assms(1) by (auto simp: emits_def intro: executed_none)
  show ?thesis
    unfolding runs_def
  proof (intro allI)
    fix fs
    show "prefix (executed (trace (bnd m f fs))) S
        \<and> (\<not> isl (result (bnd m f fs)) \<longrightarrow> executed (trace (bnd m f fs)) = S)"
    proof (cases "result (m fs)")
      case (Inl e)
      then show ?thesis by (simp add: trace_bnd result_bnd none)
    next
      case (Inr x)
      with assms(2) [of x] show ?thesis
        by (simp add: trace_bnd result_bnd none executed_append runs_def)
    qed
  qed
qed

lemma runs_bnd_after:
  assumes "runs S m" and "\<And>x. emits {ev. \<not> is_execute ev} (f x)"
  shows "runs S (bnd m f)"
proof -
  have none: "executed (trace (f x fs)) = []" for x fs
    using assms(2) [of x] by (auto simp: emits_def intro: executed_none)
  show ?thesis
    unfolding runs_def
  proof (intro allI)
    fix fs
    show "prefix (executed (trace (bnd m f fs))) S
        \<and> (\<not> isl (result (bnd m f fs)) \<longrightarrow> executed (trace (bnd m f fs)) = S)"
    proof (cases "result (m fs)")
      case (Inl e)
      with assms(1) show ?thesis by (simp add: trace_bnd result_bnd runs_def)
    next
      case (Inr x)
      with assms(1) have "executed (trace (m fs)) = S"
        by (auto simp: runs_def)
      with Inr show ?thesis
        by (simp add: trace_bnd result_bnd none executed_append)
    qed
  qed
qed

lemma runs_execute_all: "runs stmts (execute_all env stmts)"
proof (induction stmts)
  case Nil
  then show ?case by (simp add: runs_def ret_def executed_def)
next
  case (Cons stmt stmts)
  show ?case
    unfolding runs_def
  proof (intro allI)
    fix fs
    let ?o = "execute env stmt fs"
    have t: "trace ?o = [Execute stmt]" and f: "fs_after ?o = fs"
      by (simp_all add: execute_def)
    show "prefix (executed (trace (execute_all env (stmt # stmts) fs))) (stmt # stmts)
        \<and> (\<not> isl (result (execute_all env (stmt # stmts) fs))
             \<longrightarrow> executed (trace (execute_all env (stmt # stmts) fs)) = stmt # stmts)"
    proof (cases "result ?o")
      case (Inl e)
      then show ?thesis by (simp add: trace_bnd result_bnd t executed_def)
    next
      case (Inr row)
      with Cons.IH show ?thesis
        by (simp add: trace_bnd result_bnd t f executed_append runs_def)
          (simp add: executed_def)
    qed
  qed
qed

lemma runs_case_prod: "(\<And>a b. runs S (f a b)) \<Longrightarrow> runs S (case_prod f p)"
  by (cases p) simp

lemmas runs_before_rules = print_shapes [THEN runs_bnd_before] emits_emit [THEN runs_bnd_before]

lemma runs_after_setup:
  "(\<And>x. emits {ev. \<not> is_execute ev} (f x)) \<Longrightarrow> runs stmts (bnd (execute_all env stmts) f)"
  by (rule runs_bnd_after [OF runs_execute_all])

lemma dry_run_runs_session_setup:
  "runs session_setup (add_admin_divisions_multi env datasets input_parquet output_parquet
     dataset_name levels dataset_source add_bbox_flag True verbose_flag compression
     compression_level row_group_size_mb row_group_rows)"
  unfolding add_admin_divisions_multi_def Let_def
  apply (simp only: not_True_eq_False if_False if_True whenever_simps)
  apply (intro runs_before_rules runs_after_setup runs_case_prod
      emits_rules shape_rules emits_dry_run_display)
  apply (auto elim: is_echo.elims)
  done

subsection \<open>The text of the query\<close>



lemma lookup_levels_error: "lookup_levels mapping levels = Inl e \<Longrightarrow> \<exists>level. e = KeyError level"
  by (induction levels) (auto split: option.splits sum.splits)








subsection \<open>What a successful dry run prints\<close>








subsection \<open>Where an engine error of a dry run comes from\<close>

lemma eef_ret: "engine_errors_from Q (ret x)"
  by (simp add: engine_errors_from_def ret_def)

lemma eef_raise: "(\<And>msg. e \<noteq> EngineError msg) \<Longrightarrow> engine_errors_from Q (raise e)"
  by (simp add: engine_errors_from_def raise_def)

lemma eef_lift:
  "(\<And>msg fs. r = Inl (EngineError msg) \<Longrightarrow> Q fs msg) \<Longrightarrow> engine_errors_from Q (lift r)"
  by (cases r) (auto simp: engine_errors_from_def lift_def ret_def raise_def)

lemma eef_helper: "engine_errors_from Q (helper h)"
  by (auto simp: engine_errors_from_def helper_def ret_def raise_def split: sum.splits)

lemma eef_os_path_exists: "engine_errors_from Q (os_path_exists env path)"
  by (simp add: engine_errors_from_def os_path_exists_def ret_def)

lemma eef_emit: "engine_errors_from Q (emit ev)"
  by (simp add: engine_errors_from_def emit_def)

lemma eef_echo: "engine_errors_from Q (echo s)"
  by (simp add: echo_def eef_emit)

lemma eef_echo_styled: "engine_errors_from Q (echo_styled s fg b)"
  by (simp add: echo_styled_def eef_emit)

lemma eef_execute:
  "(\<And>fs msg. engine env fs stmt = Inl msg \<Longrightarrow> Q fs msg) \<Longrightarrow>
   engine_errors_from Q (execute env stmt)"
  by (auto simp: engine_errors_from_def execute_def split: sum.splits)

lemma eef_bnd:
  assumes "engine_errors_from Q m" and "\<And>x. engine_errors_from Q (f x)"
  shows "engine_errors_from Q (bnd m f)"
  unfolding engine_errors_from_def
proof (intro allI)
  fix fs
  from assms(1) have m: "fs_after (m fs) = fs"
    "\<And>msg. result (m fs) = Inl (EngineError msg) \<Longrightarrow> Q fs msg"
    by (auto simp: engine_errors_from_def)
  show "fs_after (bnd m f fs) = fs
      \<and> (\<forall>msg. result (bnd m f fs) = Inl (EngineError msg) \<longrightarrow> Q fs msg)"
  proof (cases "result (m fs)")
    case (Inl e)
    with m show ?thesis by (simp add: fs_after_bnd result_bnd)
  next
    case (Inr x)
    with m(1) assms(2) [of x] show ?thesis
      by (auto simp: fs_after_bnd result_bnd engine_errors_from_def)
  qed
qed

lemma eef_bnd_lift:
  assumes "\<And>msg fs. r = Inl (EngineError msg) \<Longrightarrow> Q fs msg"
    and "\<And>x. r = Inr x \<Longrightarrow> engine_errors_from Q (f x)"
  shows "engine_errors_from Q (bnd (lift r) f)"
proof (cases r)
  case (Inl e)
  with assms(1) show ?thesis
    by (auto simp: engine_errors_from_def result_bnd fs_after_bnd lift_def raise_def)
next
  case (Inr x)
  with assms(2) [of x] show ?thesis
    by (auto simp: engine_errors_from_def result_bnd fs_after_bnd lift_def ret_def)
qed

lemma eef_whenever: "engine_errors_from Q m \<Longrightarrow> engine_errors_from Q (whenever b m)"
  by (simp add: whenever_def eef_ret)

lemma eef_if:
  "engine_errors_from Q m \<Longrightarrow> engine_errors_from Q n \<Longrightarrow> engine_errors_from Q (if b then m else n)"
  by simp

lemma eef_case_prod:
  "(\<And>a b. engine_errors_from Q (f a b)) \<Longrightarrow> engine_errors_from Q (case_prod f p)"
  by (cases p) simp

lemmas eef_leaves =
  eef_ret eef_helper eef_os_path_exists eef_emit eef_echo eef_echo_styled eef_execute
  eef_whenever eef_if

lemmas eef_rules =
  eef_leaves eef_leaves [THEN eef_bnd] eef_bnd_lift eef_lift eef_raise eef_case_prod

lemma eef_execute_all:
  "(\<And>fs msg stmt. stmt \<in> set stmts \<Longrightarrow> engine env fs stmt = Inl msg \<Longrightarrow> Q fs msg) \<Longrightarrow>
   engine_errors_from Q (execute_all env stmts)"
proof (induction stmts)
  case Nil
  then show ?case by (simp add: eef_ret)
next
  case (Cons stmt stmts)
  show ?case
    unfolding execute_all.simps
  proof (rule eef_bnd)
    show "engine_errors_from Q (execute env stmt)"
      using Cons.prems by (intro eef_execute) auto
    show "engine_errors_from Q (execute_all env stmts)" for x :: "int list"
      using Cons.prems by (intro Cons.IH) auto
  qed
qed

lemma is_remote_error: "is_remote d = Inl e \<Longrightarrow> get_source d = Inl e"
  by (auto simp: is_remote_def split: sum.splits)

lemma eef_verbose_banner:
  "(\<And>msg fs. get_source d = Inl (EngineError msg) \<Longrightarrow> Q fs msg) \<Longrightarrow>
   engine_errors_from Q (verbose_banner d levels)"
  unfolding verbose_banner_def by (intro eef_rules) auto

lemma eef_prepare_data_source:
  "(\<And>msg fs. get_source d = Inl (EngineError msg) \<Longrightarrow> Q fs msg) \<Longrightarrow>
   engine_errors_from Q (prepare_data_source env d)"
  unfolding prepare_data_source_def by (intro eef_rules) (auto dest: is_remote_error)

lemma eef_dry_run_header: "engine_errors_from Q (dry_run_header iu asrc out ig ag ib ab)"
  unfolding dry_run_header_def by (intro eef_rules)

lemma eef_announce_join: "engine_errors_from Q (announce_join wb v dr)"
  unfolding announce_join_def by (intro eef_rules)

lemma eef_dry_run_display: "engine_errors_from Q (dry_run_display q wb out c cl)"
  unfolding dry_run_display_def by (intro eef_rules)

lemmas eef_steps =
  eef_verbose_banner eef_prepare_data_source eef_dry_run_header eef_announce_join
  eef_whenever [OF eef_verbose_banner] eef_execute_all

lemma validate_levels_error: "validate_levels d levels = Inl e \<Longrightarrow> \<exists>msg. e = UsageError msg"
  by (auto simp: validate_levels_def Let_def split: if_splits)

lemma get_partition_columns_error:
  "get_partition_columns d levels = Inl e \<Longrightarrow> (\<exists>msg. e = UsageError msg) \<or> (\<exists>level. e = KeyError level)"
  by (auto simp: get_partition_columns_def split: sum.splits
        dest: validate_levels_error lookup_levels_error)

lemma dry_run_engine_errors:
  "engine_errors_from
     (\<lambda>fs msg. dataset_raises datasets dataset_name dataset_source verbose_flag (EngineError msg)
                \<or> (\<exists>stmt \<in> set session_setup. engine env fs stmt = Inl msg))
     (add_admin_divisions_multi env datasets input_parquet output_parquet
     dataset_name levels dataset_source add_bbox_flag True verbose_flag compression
     compression_level row_group_size_mb row_group_rows)"
  unfolding add_admin_divisions_multi_def Let_def
  apply (simp only: not_True_eq_False if_False if_True whenever_simps)
  apply (intro eef_rules eef_steps eef_steps [THEN eef_bnd] eef_dry_run_display)
  apply (auto simp: dataset_raises_def dest: validate_levels_error get_partition_columns_error)
  done

subsection \<open>Concrete runs\<close>

lemmas run_simps =
  add_admin_divisions_multi_def result_bnd trace_bnd fs_after_bnd
  ret_def raise_def lift_def emit_def echo_def echo_styled_def helper_def execute_def item_def
  writer_def whenever_def os_path_exists_def
  verbose_banner_def dry_run_header_def execute_preamble_def report_input_count_def
  prepare_data_source_def announce_join_def dry_run_display_def execute_and_report_def
  session_setup_def
  create_def builtin_datasets_def GAULAdminDataset_class_def OvertureAdminDataset_class_def
  CurrentAdminDataset_class_def GAULAdminDataset_def OvertureAdminDataset_def
  CurrentAdminDataset_def validate_levels_def invalid_levels_def get_partition_columns_def
  get_source_def is_remote_def startswith_remote_def
  example_env_def example_bbox_info_def offline_env_def missing_source_env_def
  uses_bbox_def Let_def

lemma example_dry_run_returns:
  "result (add_admin_divisions_multi example_env builtin_datasets ''in.parquet''
     ''out.parquet'' ''gaul'' [''country'', ''department''] None False True False ''ZSTD''
     None None None 0) = Inr ()"
  by (simp add: run_simps)

lemma file_writes_none: "set t \<subseteq> {ev. \<not> is_file_write ev} \<Longrightarrow> file_writes t = []"
proof (induction t)
  case Nil
  then show ?case by (simp add: file_writes_def)
next
  case (Cons ev t)
  then have "\<not> is_file_write ev" and "file_writes t = []" by auto
  then show ?case by (cases ev) (simp_all add: file_writes_def)
qed



text \<open>
  Claim C8 fails as stated: when the engine cannot install the spatial extension, a dry
  run has executed a statement and raises the engine's error.
\<close>

theorem dry_run_raises_engine_error:
  "executed (trace (add_admin_divisions_multi offline_env builtin_datasets ''in.parquet''
     ''out.parquet'' ''gaul'' [''country'', ''department''] None False True False ''ZSTD''
     None None None 0)) = [''INSTALL spatial;'']
   \<and> result (add_admin_divisions_multi offline_env builtin_datasets ''in.parquet''
     ''out.parquet'' ''gaul'' [''country'', ''department''] None False True False ''ZSTD''
     None None None 0) = Inl (EngineError ''IO Error: Failed to download extension'')"
  by (simp add: run_simps executed_def)

lemma builtin_dataset_raises_usage_error:
  "dataset_raises builtin_datasets dataset_name sp v e \<Longrightarrow> \<exists>msg. e = UsageError msg"
  by (auto simp: dataset_raises_def create_def builtin_datasets_def get_source_def
        CurrentAdminDataset_class_def GAULAdminDataset_class_def OvertureAdminDataset_class_def
        CurrentAdminDataset_def GAULAdminDataset_def OvertureAdminDataset_def
        split: if_splits option.splits)

text \<open>
  Claim C8, as amended. A request in dry-run mode executes the statements of the session
  setup and no other: the first of them in their order, and all seven when it returns;
  it never calls \<^verbatim>\<open>write_parquet_with_metadata\<close>. An engine error that it raises is
  the failure of one of these seven statements, unless the dataset object itself raised
  it, which no dataset of the built-in registry does.
\<close>

theorem dry_run_executes_session_setup_only:
  "let run = add_admin_divisions_multi env datasets input_parquet output_parquet dataset_name
               levels dataset_source add_bbox_flag True verbose compression compression_level
               row_group_size_mb row_group_rows
   in prefix (executed (trace (run fs))) session_setup
      \<and> (result (run fs) = Inr () \<longrightarrow> executed (trace (run fs)) = session_setup)
      \<and> file_writes (trace (run fs)) = []
      \<and> (\<forall>msg. result (run fs) = Inl (EngineError msg) \<longrightarrow>
            dataset_raises datasets dataset_name dataset_source verbose (EngineError msg)
            \<or> (\<exists>stmt \<in> set session_setup. engine env fs stmt = Inl msg))
      \<and> (\<forall>msg. \<not> dataset_raises builtin_datasets dataset_name dataset_source verbose
                      (EngineError msg))"
proof -
  let ?run = "add_admin_divisions_multi env datasets input_parquet output_parquet dataset_name
               levels dataset_source add_bbox_flag True verbose compression compression_level
               row_group_size_mb row_group_rows"
  have stmts: "prefix (executed (trace (?run fs))) session_setup"
    "result (?run fs) = Inr () \<longrightarrow> executed (trace (?run fs)) = session_setup"
    using dry_run_runs_session_setup [of env datasets input_parquet output_parquet
        dataset_name levels dataset_source add_bbox_flag verbose compression
        compression_level row_group_size_mb row_group_rows]
    by (auto simp: runs_def)
  have "set (trace (?run fs)) \<subseteq> {ev. \<not> is_file_write ev}"
    using dry_run_emits [of env datasets input_parquet output_parquet dataset_name
        levels dataset_source add_bbox_flag verbose compression compression_level
        row_group_size_mb row_group_rows]
    by (auto simp: emits_def)
  then have writes: "file_writes (trace (?run fs)) = []"
    by (rule file_writes_none)
  have origin: "\<forall>msg. result (?run fs) = Inl (EngineError msg) \<longrightarrow>
            dataset_raises datasets dataset_name dataset_source verbose (EngineError msg)
            \<or> (\<exists>stmt \<in> set session_setup. engine env fs stmt = Inl msg)"
    using dry_run_engine_errors [of datasets dataset_name dataset_source verbose env
        input_parquet output_parquet levels add_bbox_flag compression compression_level
        row_group_size_mb row_group_rows]
    by (simp add: engine_errors_from_def)
  have builtin: "\<forall>msg. \<not> dataset_raises builtin_datasets dataset_name dataset_source verbose
                      (EngineError msg)"
    by (auto dest: builtin_dataset_raises_usage_error)
  from stmts writes origin builtin show ?thesis
    by (simp add: Let_def)
qed

theorem dry_run_executes_session_setup_only_witness:
  "result (add_admin_divisions_multi example_env builtin_datasets ''in.parquet''
     ''out.parquet'' ''gaul'' [''country'', ''department''] None False True False ''ZSTD''
     None None None 0) = Inr ()
   \<and> executed (trace (add_admin_divisions_multi example_env builtin_datasets ''in.parquet''
     ''out.parquet'' ''gaul'' [''country'', ''department''] None False True False ''ZSTD''
     None None None 0)) = session_setup"
  using dry_run_executes_session_setup_only
          [where env = example_env and datasets = builtin_datasets
             and input_parquet = "''in.parquet''" and output_parquet = "''out.parquet''"
             and dataset_name = "''gaul''" and levels = "[''country'', ''department'']"
             and dataset_source = None and add_bbox_flag = False and verbose = False
             and compression = "''ZSTD''" and compression_level = None
             and row_group_size_mb = None and row_group_rows = None and fs = 0]
        example_dry_run_returns
  by (simp add: Let_def)

subsection \<open>The connection\<close>

lemma session_open_append: "session_open b (t1 @ t2) = session_open (session_open b t1) t2"
proof (induction t1 arbitrary: b)
  case Nil
  then show ?case by simp
next
  case (Cons ev t1)
  then show ?case by (cases ev) simp_all
qed

lemma session_open_quiet:
  "set t \<subseteq> {ev. \<not> is_session_event ev} \<Longrightarrow> session_open b t = b"
proof (induction t)
  case Nil
  then show ?case by simp
next
  case (Cons ev t)
  then have "\<not> is_session_event ev" and "session_open b t = b" by auto
  then show ?case by (cases ev) simp_all
qed

lemma no_connect_quiet: "set t \<subseteq> {ev. \<not> is_session_event ev} \<Longrightarrow> Connect \<notin> set t"
  by auto

lemma never_fails_echo: "never_fails (echo s)"
  by (simp add: never_fails_def echo_def emit_def)

lemma never_fails_ret: "never_fails (ret x)"
  by (simp add: never_fails_def ret_def)

lemma never_fails_bnd:
  assumes "never_fails m" and "\<And>x. never_fails (f x)"
  shows "never_fails (bnd m f)"
  unfolding never_fails_def
proof (intro allI)
  fix fs
  from assms(1) have "\<not> isl (result (m fs))"
    by (simp add: never_fails_def)
  then obtain x where "result (m fs) = Inr x"
    by (cases "result (m fs)") simp_all
  with assms(2) [of x] show "\<not> isl (result (bnd m f fs))"
    by (simp add: result_bnd never_fails_def)
qed

lemma never_fails_echo_lines: "never_fails (echo_lines ls)"
proof (induction ls)
  case Nil
  then show ?case by (simp add: never_fails_ret)
next
  case (Cons l ls)
  then show ?case by (simp add: never_fails_bnd never_fails_echo)
qed

lemma closes_bnd:
  assumes "emits {ev. \<not> is_session_event ev} m" and "\<And>x. closes (f x)"
  shows "closes (bnd m f)"
  unfolding closes_def
proof (intro allI)
  fix fs
  have sub: "set (trace (m fs)) \<subseteq> {ev. \<not> is_session_event ev}"
    using assms(1) by (simp add: emits_def)
  have q: "session_open b (trace (m fs)) = b" for b
    using sub by (rule session_open_quiet)
  show "session_open True (trace (bnd m f fs)) = isl (result (bnd m f fs))"
  proof (cases "result (m fs)")
    case (Inl e)
    then show ?thesis by (simp add: trace_bnd result_bnd q)
  next
    case (Inr x)
    with assms(2) [of x] show ?thesis
      by (simp add: trace_bnd result_bnd session_open_append q closes_def)
  qed
qed

lemma closes_emit_close: "closes (emit Close)"
  by (simp add: closes_def emit_def)

lemma closes_bnd_close:
  assumes "emits {ev. \<not> is_session_event ev} m" and "never_fails m"
  shows "closes (bnd (emit Close) (\<lambda>_. m))"
  unfolding closes_def
proof (intro allI)
  fix fs
  have sub: "set (trace (m fs)) \<subseteq> {ev. \<not> is_session_event ev}"
    using assms(1) by (simp add: emits_def)
  have "session_open False (trace (m fs)) = False"
    using sub by (rule session_open_quiet)
  moreover have "\<not> isl (result (m fs))"
    using assms(2) by (simp add: never_fails_def)
  ultimately show "session_open True (trace (bnd (emit Close) (\<lambda>_. m) fs))
      = isl (result (bnd (emit Close) (\<lambda>_. m) fs))"
    by (simp add: trace_bnd result_bnd emit_def)
qed

lemma closes_if: "closes m \<Longrightarrow> closes n \<Longrightarrow> closes (if b then m else n)"
  by simp

lemma closes_case_prod: "(\<And>a b. closes (f a b)) \<Longrightarrow> closes (case_prod f p)"
  by (cases p) simp

lemma connects_bnd:
  assumes "emits {ev. \<not> is_session_event ev} m" and "\<And>x. connects (f x)"
  shows "connects (bnd m f)"
  unfolding connects_def
proof (intro allI)
  fix fs
  have sub: "set (trace (m fs)) \<subseteq> {ev. \<not> is_session_event ev}"
    using assms(1) by (simp add: emits_def)
  have q: "session_open b (trace (m fs)) = b" for b
    using sub by (rule session_open_quiet)
  have c: "Connect \<notin> set (trace (m fs))"
    using sub by (rule no_connect_quiet)
  show "session_open False (trace (bnd m f fs))
        = (Connect \<in> set (trace (bnd m f fs)) \<and> isl (result (bnd m f fs)))
      \<and> (\<not> isl (result (bnd m f fs)) \<longrightarrow> Connect \<in> set (trace (bnd m f fs)))"
  proof (cases "result (m fs)")
    case (Inl e)
    then show ?thesis by (simp add: trace_bnd result_bnd q c)
  next
    case (Inr x)
    with assms(2) [of x] show ?thesis
      by (simp add: trace_bnd result_bnd session_open_append q c connects_def)
  qed
qed

lemma connects_bnd_connect:
  assumes "\<And>x. closes (f x)"
  shows "connects (bnd (emit Connect) f)"
  using assms [of "()"]
  by (simp add: connects_def closes_def trace_bnd result_bnd emit_def)

lemma connects_case_prod: "(\<And>a b. connects (f a b)) \<Longrightarrow> connects (case_prod f p)"
  by (cases p) simp

lemmas closes_rules =
  shape_rules [THEN closes_bnd] closes_bnd_close closes_emit_close closes_if closes_case_prod

lemmas connects_rules =
  shape_rules [THEN connects_bnd] connects_bnd_connect connects_case_prod

lemma closes_dry_run_display: "closes (dry_run_display q wb out c cl)"
  unfolding dry_run_display_def
  by (intro closes_rules emits_rules) auto

lemma closes_execute_and_report: "closes (execute_and_report env args levels)"
  unfolding execute_and_report_def
  by (intro closes_rules emits_rules shape_rules never_fails_bnd never_fails_echo
        never_fails_echo_lines)
    (auto elim: is_echo.elims)

lemma request_connects:
  "connects (add_admin_divisions_multi env datasets input_parquet output_parquet
     dataset_name levels dataset_source add_bbox_flag dry_run verbose_flag compression
     compression_level row_group_size_mb row_group_rows)"
  unfolding add_admin_divisions_multi_def Let_def
  apply (intro connects_rules closes_rules closes_dry_run_display closes_execute_and_report
      emits_rules shape_rules)
  apply (auto elim: is_echo.elims)
  done

lemma example_run_returns:
  "result (add_admin_divisions_multi example_env builtin_datasets ''in.parquet''
     ''out.parquet'' ''gaul'' [''country'', ''department''] None False False False ''ZSTD''
     None None None 0) = Inr ()"
  by (simp add: run_simps)

text \<open>
  Claim C4 fails as stated: with a local admin source that does not exist, the request
  opens the connection, raises the error of \<open>prepare_data_source\<close> and leaves the
  connection open.
\<close>

theorem missing_source_leaves_session_open:
  "Connect \<in> set (trace (add_admin_divisions_multi missing_source_env builtin_datasets
      ''in.parquet'' ''out.parquet'' ''gaul'' [''country''] (Some ''/data/gaul.parquet'')
      False False False ''ZSTD'' None None None 0))
   \<and> session_open False (trace (add_admin_divisions_multi missing_source_env
      builtin_datasets ''in.parquet'' ''out.parquet'' ''gaul'' [''country'']
      (Some ''/data/gaul.parquet'') False False False ''ZSTD'' None None None 0))
   \<and> result (add_admin_divisions_multi missing_source_env builtin_datasets ''in.parquet''
      ''out.parquet'' ''gaul'' [''country''] (Some ''/data/gaul.parquet'') False False False
      ''ZSTD'' None None None 0)
     = Inl (ClickException ''Data source file not found: /data/gaul.parquet'')"
  by (simp add: run_simps)

text \<open>
  Claim C4, as amended. A request that returns, in dry-run mode or not, has opened a
  connection and closed it. A request that raises leaves a connection open exactly when
  it had opened one: an error raised before the connection is opened leaves none, an
  error raised after it leaves it unclosed.
\<close>

theorem session_closed_when_request_returns:
  "let r = add_admin_divisions_multi env datasets input_parquet output_parquet dataset_name
             levels dataset_source add_bbox_flag dry_run verbose compression compression_level
             row_group_size_mb row_group_rows fs
   in (result r = Inr () \<longrightarrow> Connect \<in> set (trace r) \<and> \<not> session_open False (trace r))
      \<and> (isl (result r) \<longrightarrow> session_open False (trace r) = (Connect \<in> set (trace r)))"
proof -
  let ?r = "add_admin_divisions_multi env datasets input_parquet output_parquet dataset_name
             levels dataset_source add_bbox_flag dry_run verbose compression compression_level
             row_group_size_mb row_group_rows fs"
  have "session_open False (trace ?r) = (Connect \<in> set (trace ?r) \<and> isl (result ?r))"
    and "\<not> isl (result ?r) \<longrightarrow> Connect \<in> set (trace ?r)"
    using request_connects [of env datasets input_parquet output_parquet dataset_name
        levels dataset_source add_bbox_flag dry_run verbose compression compression_level
        row_group_size_mb row_group_rows]
    by (simp_all add: connects_def)
  then show ?thesis
    by (auto simp: Let_def)
qed

theorem session_closed_when_request_returns_witness:
  "result (add_admin_divisions_multi example_env builtin_datasets ''in.parquet''
     ''out.parquet'' ''gaul'' [''country'', ''department''] None False False False ''ZSTD''
     None None None 0) = Inr ()
   \<and> \<not> session_open False (trace (add_admin_divisions_multi example_env builtin_datasets
     ''in.parquet'' ''out.parquet'' ''gaul'' [''country'', ''department''] None False False
     False ''ZSTD'' None None None 0))
   \<and> result (add_admin_divisions_multi example_env builtin_datasets ''in.parquet''
     ''out.parquet'' ''gaul'' [''country'', ''department''] None False True False ''ZSTD''
     None None None 0) = Inr ()
   \<and> \<not> session_open False (trace (add_admin_divisions_multi example_env builtin_datasets
     ''in.parquet'' ''out.parquet'' ''gaul'' [''country'', ''department''] None False True
     False ''ZSTD'' None None None 0))"
  using session_closed_when_request_returns
          [where env = example_env and datasets = builtin_datasets
             and input_parquet = "''in.parquet''" and output_parquet = "''out.parquet''"
             and dataset_name = "''gaul''" and levels = "[''country'', ''department'']"
             and dataset_source = None and add_bbox_flag = False and verbose = False
             and dry_run = False
             and compression = "''ZSTD''" and compression_level = None
             and row_group_size_mb = None and row_group_rows = None and fs = 0]
        session_closed_when_request_returns
          [where env = example_env and datasets = builtin_datasets
             and input_parquet = "''in.parquet''" and output_parquet = "''out.parquet''"
             and dataset_name = "''gaul''" and levels = "[''country'', ''department'']"
             and dataset_source = None and add_bbox_flag = False and verbose = False
             and dry_run = True
             and compression = "''ZSTD''" and compression_level = None
             and row_group_size_mb = None and row_group_rows = None and fs = 0]
        example_run_returns example_dry_run_returns
  by (simp add: Let_def)

subsection \<open>Statements a request executes\<close>

lemma emits_execute_and_report:
  assumes "Collect is_echo \<subseteq> A" and "Close \<in> A"
    and "WriteParquet (w_query args) (w_output_parquet args) \<in> A"
    and "Execute (stats_query levels (w_output_parquet args)) \<in> A"
    and "\<And>level. Execute (count_query level (w_output_parquet args)) \<in> A"
  shows "emits A (execute_and_report env args levels)"
  unfolding execute_and_report_def
  using assms by (intro emits_rules shape_rules) auto

lemma request_emits:
  assumes "Collect is_echo \<subseteq> A" and "Connect \<in> A" and "Close \<in> A"
    and "\<And>f c. AddBbox f c \<in> A" and "\<And>q. WriteParquet q output_parquet \<in> A"
    and "\<And>stmt. stmt \<in> set session_setup \<Longrightarrow> Execute stmt \<in> A"
    and "\<And>url. Execute (''SELECT COUNT(*) FROM '' @ quoted url) \<in> A"
    and "Execute (stats_query levels output_parquet) \<in> A"
    and "\<And>level. Execute (count_query level output_parquet) \<in> A"
  shows "emits A (add_admin_divisions_multi env datasets input_parquet output_parquet
     dataset_name levels dataset_source add_bbox_flag dry_run verbose_flag compression
     compression_level row_group_size_mb row_group_rows)"
  unfolding add_admin_divisions_multi_def Let_def
  using assms
  by (intro emits_rules shape_rules emits_dry_run_display emits_execute_and_report) auto

lemma set_executed: "stmt \<in> set (executed t) \<longleftrightarrow> Execute stmt \<in> set t"
proof (induction t)
  case Nil
  then show ?case by (simp add: executed_def)
next
  case (Cons ev t)
  then show ?case by (cases ev) (auto simp: executed_def)
qed

text \<open>
  Claim C2: what the code does. The statement of \<open>configure_s3\<close> of the Overture
  dataset is never executed by a request, whatever its parameters and collaborators.
\<close>

theorem overture_region_never_set:
  "configure_s3 (OvertureAdminDataset dataset_source verbose) = [''SET s3_region='us-west-2';'']
   \<and> ''SET s3_region='us-west-2';''
       \<notin> set (executed (trace (add_admin_divisions_multi env builtin_datasets input_parquet
                output_parquet ''overture'' levels dataset_source add_bbox_flag dry_run verbose
                compression compression_level row_group_size_mb row_group_rows fs)))"
proof -
  have "emits {ev. ev \<noteq> Execute ''SET s3_region='us-west-2';''}
     (add_admin_divisions_multi env builtin_datasets input_parquet
                output_parquet ''overture'' levels dataset_source add_bbox_flag dry_run verbose
                compression compression_level row_group_size_mb row_group_rows)"
    by (rule request_emits)
      (auto simp: session_setup_def stats_query_def count_query_def elim: is_echo.elims)
  then have "Execute ''SET s3_region='us-west-2';''
       \<notin> set (trace (add_admin_divisions_multi env builtin_datasets input_parquet
                output_parquet ''overture'' levels dataset_source add_bbox_flag dry_run verbose
                compression compression_level row_group_size_mb row_group_rows fs))"
    by (auto simp: emits_def)
  then show ?thesis
    by (simp add: set_executed OvertureAdminDataset_def)
qed

subsection \<open>The query of a request on the Overture dataset\<close>

text \<open>
  Claim C3: what the code does. For the levels \<^verbatim>\<open>["region"]\<close> the Overture dataset
  offers the row filter \<^verbatim>\<open>subtype IN ('region')\<close>, and the query that the request hands
  to \<^verbatim>\<open>write_parquet_with_metadata\<close> joins the whole admin source: the word
  \<^verbatim>\<open>subtype\<close> does not occur in it.
\<close>

theorem overture_region_join_is_unfiltered:
  \<open>let q = ''\<newline>''
         @ ''    SELECT\<newline>''
         @ ''        a.*,\<newline>''
         @ ''        b."names['primary']" as "admin:region"\<newline>''
         @ ''    FROM 'in.parquet' a\<newline>''
         @ ''    LEFT JOIN 's3://overturemaps-us-west-2/release/2025-10-22.0/theme=divisions/type=division_area/*' b\<newline>''
         @ ''    ON (a.bbox.xmin <= b.bbox.xmax AND\<newline>''
         @ ''        a.bbox.xmax >= b.bbox.xmin AND\<newline>''
         @ ''        a.bbox.ymin <= b.bbox.ymax AND\<newline>''
         @ ''        a.bbox.ymax >= b.bbox.ymin)  -- Fast bbox intersection test\<newline>''
         @ ''        AND ST_Intersects(  -- More expensive precise check only on bbox matches\<newline>''
         @ ''            b.geometry,\<newline>''
         @ ''            a.geometry\<newline>''
         @ ''        )\<newline>''
   in get_subtype_filter (OvertureAdminDataset None False) [''region'']
        = Some ''subtype IN ('region')''
      \<and> file_writes (trace (add_admin_divisions_multi example_env builtin_datasets
           ''in.parquet'' ''out.parquet'' ''overture'' [''region''] None False False False
           ''ZSTD'' None None None 0))
        = [WriteParquet q ''out.parquet'']
      \<and> \<not> sublist ''subtype'' q\<close>
proof -
  have filter: \<open>get_subtype_filter (OvertureAdminDataset None False) [''region'']
        = Some ''subtype IN ('region')''\<close>
    by (simp add: OvertureAdminDataset_def overture_subtype_filter_def level_to_subtype_def
          List.map_filter_def quoted_def)
  have writes: \<open>file_writes (trace (add_admin_divisions_multi example_env builtin_datasets
           ''in.parquet'' ''out.parquet'' ''overture'' [''region''] None False False False
           ''ZSTD'' None None None 0))
        = [WriteParquet (''\<newline>''
         @ ''    SELECT\<newline>''
         @ ''        a.*,\<newline>''
         @ ''        b."names['primary']" as "admin:region"\<newline>''
         @ ''    FROM 'in.parquet' a\<newline>''
         @ ''    LEFT JOIN 's3://overturemaps-us-west-2/release/2025-10-22.0/theme=divisions/type=division_area/*' b\<newline>''
         @ ''    ON (a.bbox.xmin <= b.bbox.xmax AND\<newline>''
         @ ''        a.bbox.xmax >= b.bbox.xmin AND\<newline>''
         @ ''        a.bbox.ymin <= b.bbox.ymax AND\<newline>''
         @ ''        a.bbox.ymax >= b.bbox.ymin)  -- Fast bbox intersection test\<newline>''
         @ ''        AND ST_Intersects(  -- More expensive precise check only on bbox matches\<newline>''
         @ ''            b.geometry,\<newline>''
         @ ''            a.geometry\<newline>''
         @ ''        )\<newline>'') ''out.parquet'']\<close>
    by (simp add: run_simps file_writes_def join_query_def bbox_join_query_def query_head_def
          bbox_condition_def admin_select_clause_def admin_select_part_def str_of_def
          quoted_def)
  have absent: \<open>\<not> sublist ''subtype'' (''\<newline>''
         @ ''    SELECT\<newline>''
         @ ''        a.*,\<newline>''
         @ ''        b."names['primary']" as "admin:region"\<newline>''
         @ ''    FROM 'in.parquet' a\<newline>''
         @ ''    LEFT JOIN 's3://overturemaps-us-west-2/release/2025-10-22.0/theme=divisions/type=division_area/*' b\<newline>''
         @ ''    ON (a.bbox.xmin <= b.bbox.xmax AND\<newline>''
         @ ''        a.bbox.xmax >= b.bbox.xmin AND\<newline>''
         @ ''        a.bbox.ymin <= b.bbox.ymax AND\<newline>''
         @ ''        a.bbox.ymax >= b.bbox.ymin)  -- Fast bbox intersection test\<newline>''
         @ ''        AND ST_Intersects(  -- More expensive precise check only on bbox matches\<newline>''
         @ ''            b.geometry,\<newline>''
         @ ''            a.geometry\<newline>''
         @ ''        )\<newline>'')\<close>
    by (simp add: sublist_Cons_right)
  from filter writes absent show ?thesis
    by (simp only: Let_def) blast
qed

end
